theory Spec2Isabelle
  imports Complex_Main "HOL-Library.Sublist"
begin

section \<open>JavaScript values\<close>

text \<open>
  The orchestration code passes JSON blobs around as live JavaScript values.  A value is
  what \<^verbatim>\<open>JSON.parse\<close> can return, plus \<^verbatim>\<open>undefined\<close> (the result of reading a
  property that is absent).  An object is the list of its own properties in the order in
  which \<^verbatim>\<open>Object.entries\<close> enumerates them; its keys are distinct.  Numbers are
  the integers (nothing below depends on a fraction).  A string is the list of its code
  units, for text whose code units are all below 256.
\<close>

datatype json =
    JUndef
  | JNull
  | JBool bool
  | JNum int
  | JStr string
  | JArr "json list"
  | JObj "(string \<times> json) list"

text \<open>Truthiness, as \<^verbatim>\<open>if (v)\<close>, \<^verbatim>\<open>!v\<close> and \<^verbatim>\<open>a || b\<close> test it.\<close>

fun truthy :: "json \<Rightarrow> bool" where
  "truthy JUndef = False"
| "truthy JNull = False"
| "truthy (JBool b) = b"
| "truthy (JNum n) = (n \<noteq> 0)"
| "truthy (JStr s) = (s \<noteq> [])"
| "truthy (JArr xs) = True"
| "truthy (JObj kvs) = True"

text \<open>
  \<^verbatim>\<open>v.k\<close> for a value that is neither \<^verbatim>\<open>null\<close> nor \<^verbatim>\<open>undefined\<close> (there the
  access throws a TypeError, which every caller below handles before calling \<open>get_prop\<close>).
  Only the property names that the code reads are looked up, none of which exists on a
  primitive or on an array.
\<close>

fun get_prop :: "json \<Rightarrow> string \<Rightarrow> json" where
  "get_prop (JObj kvs) k = (case map_of kvs k of Some v \<Rightarrow> v | None \<Rightarrow> JUndef)"
| "get_prop v k = JUndef"

definition js_or :: "json \<Rightarrow> json \<Rightarrow> json" where
  "js_or a b = (if truthy a then a else b)"

definition nullish :: "json \<Rightarrow> bool" where
  "nullish v = (v = JNull \<or> v = JUndef)"

subsection \<open>Text helpers\<close>

definition nl :: string where
  "nl = [CHR 0x0A]"

definition digit_char :: "nat \<Rightarrow> char" where
  "digit_char d = char_of (48 + d)"

fun show_nat :: "nat \<Rightarrow> string" where
  "show_nat n = (if n < 10 then [digit_char n] else show_nat (n div 10) @ [digit_char (n mod 10)])"

declare show_nat.simps [simp del]

definition show_int :: "int \<Rightarrow> string" where
  "show_int i = (if i < 0 then CHR ''-'' # show_nat (nat (- i)) else show_nat (nat i))"

definition quoted :: "string \<Rightarrow> string" where
  "quoted s = CHR 0x27 # s @ [CHR 0x27]"

fun intersperse :: "'a list \<Rightarrow> 'a list list \<Rightarrow> 'a list" where
  "intersperse sep [] = []"
| "intersperse sep [x] = x"
| "intersperse sep (x # y # ys) = x @ sep @ intersperse sep (y # ys)"

text \<open>\<^verbatim>\<open>s.startsWith(p)\<close> and \<^verbatim>\<open>s.includes(p)\<close>.\<close>

fun startsWith :: "string \<Rightarrow> string \<Rightarrow> bool" where
  "startsWith s [] = True"
| "startsWith [] (p # ps) = False"
| "startsWith (c # cs) (p # ps) = (c = p \<and> startsWith cs ps)"

fun str_includes :: "string \<Rightarrow> string \<Rightarrow> bool" where
  "str_includes [] p = (p = [])"
| "str_includes (c # cs) p = (startsWith (c # cs) p \<or> str_includes cs p)"

text \<open>
  \<^verbatim>\<open>toLowerCase\<close>: the capital letters below 256 are the ASCII ones and the code
  units 192 to 222 other than the multiplication sign (215).
\<close>

definition code_of :: "char \<Rightarrow> nat" where
  "code_of c = of_char c"

definition lower_char :: "char \<Rightarrow> char" where
  "lower_char c =
     (if (65 \<le> code_of c \<and> code_of c \<le> 90) \<or>
         (192 \<le> code_of c \<and> code_of c \<le> 222 \<and> code_of c \<noteq> 215)
      then char_of (code_of c + 32) else c)"

definition toLowerCase :: "string \<Rightarrow> string" where
  "toLowerCase s = map lower_char s"

definition is_digit :: "char \<Rightarrow> bool" where
  "is_digit c = (48 \<le> code_of c \<and> code_of c \<le> 57)"

text \<open>The regular-expression class \<^verbatim>\<open>\w\<close>: ASCII letters, digits and the underscore.\<close>

definition is_word :: "char \<Rightarrow> bool" where
  "is_word c = ((97 \<le> code_of c \<and> code_of c \<le> 122) \<or> (65 \<le> code_of c \<and> code_of c \<le> 90)
     \<or> (48 \<le> code_of c \<and> code_of c \<le> 57) \<or> c = CHR ''_'')"

text \<open>
  \<^verbatim>\<open>s.split(/\W+/)\<close>: the pieces between maximal runs of non-word characters.  A
  separator at either end leaves an empty piece there, and the empty string splits into
  one empty piece.  \<open>insep\<close> says that the previous character was a separator.
\<close>

fun split_W_aux :: "bool \<Rightarrow> string \<Rightarrow> string \<Rightarrow> string list" where
  "split_W_aux insep cur [] = [rev cur]"
| "split_W_aux insep cur (c # cs) =
     (if is_word c then split_W_aux False (c # cur) cs
      else if insep then split_W_aux True cur cs
      else rev cur # split_W_aux True [] cs)"

definition split_W :: "string \<Rightarrow> string list" where
  "split_W s = split_W_aux False [] s"

section \<open>The platform\<close>

text \<open>What happens outside the page, in the order in which the page asks for it.\<close>

datatype effect =
    EvalSafe json
  | EvalDirect json
  | CallTool string string json
  | PostChat

text \<open>
  The sandbox worker answers with \<^verbatim>\<open>{success: true, result}\<close> or with
  \<^verbatim>\<open>{success: false, error}\<close>, \<^verbatim>\<open>error\<close> being whatever the \<^verbatim>\<open>message\<close> of the
  thrown value was, or the promise is rejected with an \<^verbatim>\<open>Error\<close> of the given message
  (the one-second watchdog, or the worker's \<^verbatim>\<open>onerror\<close>).  Direct execution returns
  a value or throws one; a thrown \<^verbatim>\<open>Error\<close> is the object of its properties, with
  \<^verbatim>\<open>message\<close> among them.
\<close>

datatype safe_outcome = SafeSuccess json | SafeFailure json | SafeRejected string

datatype direct_outcome = Returned json | Threw json

datatype ajv_result = AjvOk | AjvErrors string | AjvThrows string

text \<open>
  The platform and the libraries the code calls, as parameters: \<^verbatim>\<open>JSON.parse\<close> (\<open>Inl\<close>
  the message of the SyntaxError), \<^verbatim>\<open>JSON.stringify(v)\<close> and
  \<^verbatim>\<open>JSON.stringify(v, null, 2)\<close> for a value other than \<^verbatim>\<open>undefined\<close>, the text of a
  number beyond the safe integers, whether the number that a string converts to is
  positive (\<^verbatim>\<open>Number(s) > 0\<close>), Ajv
  (\<^verbatim>\<open>compile\<close>, then the compiled validator, then \<^verbatim>\<open>errorsText\<close>),
  \<^verbatim>\<open>new RegExp(q, 'i')\<close> with its \<^verbatim>\<open>test\<close>, the sandbox, \<^verbatim>\<open>new Function(code)()\<close>,
  and \<^verbatim>\<open>client.callTool\<close> of the server with the given URL.  The last three see the
  effects so far, so that their answers may depend on what ran before.
\<close>

record env =
  JSON_parse :: "string \<Rightarrow> string + json"
  JSON_stringify :: "json \<Rightarrow> string"
  JSON_stringify2 :: "json \<Rightarrow> string"
  Number_toString :: "int \<Rightarrow> string"
  StringToNumber_positive :: "string \<Rightarrow> bool"
  ajv :: "json \<Rightarrow> json \<Rightarrow> ajv_result"
  RegExp_i :: "json \<Rightarrow> string + (string \<Rightarrow> bool)"
  evalSafe :: "effect list \<Rightarrow> json \<Rightarrow> safe_outcome"
  runFunction :: "effect list \<Rightarrow> json \<Rightarrow> direct_outcome"
  callTool :: "effect list \<Rightarrow> string \<Rightarrow> string \<Rightarrow> json \<Rightarrow> string + string"

section \<open>Coercions and their errors\<close>

text \<open>
  The messages of the TypeErrors that the code can pass on, in the wording of the V8
  engine: reading property \<open>k\<close> of \<^verbatim>\<open>null\<close> or \<^verbatim>\<open>undefined\<close>, converting an object
  that has no callable \<^verbatim>\<open>toString\<close>, and calling \<^verbatim>\<open>includes\<close> on a value that has
  no such method.
\<close>

definition typeError_read :: "json \<Rightarrow> string \<Rightarrow> string" where
  "typeError_read v k =
     ''Cannot read properties of '' @ (if v = JNull then ''null'' else ''undefined'') @
     '' (reading '' @ quoted k @ '')''"

definition cannot_convert :: string where
  "cannot_convert = ''Cannot convert object to primitive value''"

definition includes_not_function :: string where
  "includes_not_function = ''requiredFields.includes is not a function''"

text \<open>The text of a number: its digits for a safe integer, the platform's text beyond.\<close>

definition number_text :: "env \<Rightarrow> int \<Rightarrow> string" where
  "number_text E n = (if \<bar>n\<bar> \<le> 2 ^ 53 then show_int n else Number_toString E n)"

text \<open>
  String coercion, as a template literal \<^verbatim>\<open>`${v}`\<close> and \<^verbatim>\<open>"text" + v\<close> perform it:
  an array joins its elements with commas (\<^verbatim>\<open>null\<close> and \<^verbatim>\<open>undefined\<close> elements as
  empty text), a plain object is \<^verbatim>\<open>[object Object]\<close>.  An object with an own property
  \<^verbatim>\<open>toString\<close>, which hides the inherited method and is not callable, cannot be
  converted: \<open>None\<close> is the TypeError.
\<close>

fun js_to_string :: "env \<Rightarrow> json \<Rightarrow> string option" where
  "js_to_string E JUndef = Some ''undefined''"
| "js_to_string E JNull = Some ''null''"
| "js_to_string E (JBool b) = Some (if b then ''true'' else ''false'')"
| "js_to_string E (JNum n) = Some (number_text E n)"
| "js_to_string E (JStr s) = Some s"
| "js_to_string E (JArr xs) =
     map_option (intersperse '','')
       (those (map (\<lambda>x. if x = JNull \<or> x = JUndef then Some [] else js_to_string E x) xs))"
| "js_to_string E (JObj kvs) =
     (if map_of kvs ''toString'' = None then Some ''[object Object]'' else None)"

text \<open>
  \<^verbatim>\<open>v > 0\<close>: \<^verbatim>\<open>undefined\<close> and a plain object convert to \<^verbatim>\<open>NaN\<close>, \<^verbatim>\<open>null\<close> to
  zero, \<^verbatim>\<open>true\<close> to one, a string to the number it spells, and an array first to its
  string.  \<open>None\<close> is the TypeError of a conversion.
\<close>

fun js_gt_zero :: "env \<Rightarrow> json \<Rightarrow> bool option" where
  "js_gt_zero E JUndef = Some False"
| "js_gt_zero E JNull = Some False"
| "js_gt_zero E (JBool b) = Some b"
| "js_gt_zero E (JNum n) = Some (0 < n)"
| "js_gt_zero E (JStr s) = Some (StringToNumber_positive E s)"
| "js_gt_zero E (JArr xs) = map_option (StringToNumber_positive E) (js_to_string E (JArr xs))"
| "js_gt_zero E (JObj kvs) = (if map_of kvs ''toString'' = None then Some False else None)"

section \<open>The schema-example synthesizer\<close>

text \<open>
  \<^verbatim>\<open>v.length\<close> and \<^verbatim>\<open>v[0]\<close> for a truthy value \<open>v\<close>.  On a plain object they read
  the properties \<^verbatim>\<open>length\<close> and \<^verbatim>\<open>0\<close>.
\<close>

fun js_length :: "json \<Rightarrow> json" where
  "js_length (JArr xs) = JNum (int (length xs))"
| "js_length (JStr s) = JNum (int (length s))"
| "js_length (JObj kvs) = get_prop (JObj kvs) ''length''"
| "js_length v = JUndef"

fun js_index0 :: "json \<Rightarrow> json" where
  "js_index0 (JArr xs) = (case xs of [] \<Rightarrow> JUndef | x # _ \<Rightarrow> x)"
| "js_index0 (JStr s) = (case s of [] \<Rightarrow> JUndef | c # _ \<Rightarrow> JStr [c])"
| "js_index0 (JObj kvs) = get_prop (JObj kvs) ''0''"
| "js_index0 v = JUndef"

text \<open>\<^verbatim>\<open>Object.entries(v)\<close> for a truthy value.\<close>

fun entries :: "json \<Rightarrow> (string \<times> json) list" where
  "entries (JObj kvs) = kvs"
| "entries (JArr xs) = zip (map show_nat [0..<length xs]) xs"
| "entries (JStr s) = zip (map show_nat [0..<length s]) (map (\<lambda>c. JStr [c]) s)"
| "entries v = []"

text \<open>
  \<^verbatim>\<open>requiredFields.includes(key)\<close>: membership in an array, substring test on a string,
  and a TypeError (\<open>None\<close>) on anything else, which has no method of that name.
\<close>

fun required_includes :: "json \<Rightarrow> string \<Rightarrow> bool option" where
  "required_includes (JArr xs) k = Some (JStr k \<in> set xs)"
| "required_includes (JStr s) k = Some (str_includes s k)"
| "required_includes v k = None"

text \<open>
  \<^verbatim>\<open>example[key] = v\<close> on the object under construction: a new own property, except
  for the key \<^verbatim>\<open>__proto__\<close>, which names the prototype accessor: the assignment then
  creates no property.
\<close>

definition assign :: "string \<Rightarrow> json \<Rightarrow> (string \<times> json) list" where
  "assign k v = (if k = ''__proto__'' then [] else [(k, v)])"

text \<open>What is done with the value of a call that may throw, and the results of the
  loop's iterations: the first exception ends the loop.\<close>

fun on_value :: "('a \<Rightarrow> 'b) \<Rightarrow> 'e + 'a \<Rightarrow> 'e + 'b" where
  "on_value f (Inl e) = Inl e"
| "on_value f (Inr v) = Inr (f v)"

fun collect :: "('e + 'a) list \<Rightarrow> 'e + 'a list" where
  "collect [] = Inr []"
| "collect (Inl e # xs) = Inl e"
| "collect (Inr v # xs) = (case collect xs of Inl e \<Rightarrow> Inl e | Inr vs \<Rightarrow> Inr (v # vs))"

fun jsize :: "json \<Rightarrow> nat" where
  "jsize (JArr xs) = Suc (sum_list (map (\<lambda>x. Suc (jsize x)) xs))"
| "jsize (JObj kvs) = Suc (sum_list (map (\<lambda>kv. Suc (jsize (snd kv))) kvs))"
| "jsize v = 0"

text \<open>
  \<^verbatim>\<open>generateExample(schema)\<close>.  The result is \<open>Inl\<close> with the message of the TypeError
  where the JavaScript throws: an \<^verbatim>\<open>enum\<close> whose \<^verbatim>\<open>length\<close> cannot be converted, or a
  \<^verbatim>\<open>required\<close> that is neither an array nor a string, met while a property is being
  looked at.  The loop over \<^verbatim>\<open>Object.entries(schema.properties)\<close> assigns
  \<^verbatim>\<open>example[key]\<close> for the keys listed in \<^verbatim>\<open>required\<close>, in enumeration order.
\<close>

function generateExample :: "env \<Rightarrow> json \<Rightarrow> string + json" where
  "generateExample E schema =
     (if \<not> truthy schema then Inr (JObj [])
      else if truthy (get_prop schema ''example'') then Inr (get_prop schema ''example'')
      else if truthy (get_prop schema ''default'') then Inr (get_prop schema ''default'')
      else if truthy (get_prop schema ''const'') then Inr (get_prop schema ''const'')
      else
        case (if truthy (get_prop schema ''enum'')
              then js_gt_zero E (js_length (get_prop schema ''enum'')) else Some False) of
          None \<Rightarrow> Inl cannot_convert
        | Some True \<Rightarrow> Inr (js_index0 (get_prop schema ''enum''))
        | Some False \<Rightarrow>
            let ty = (case get_prop schema ''type'' of JArr ts \<Rightarrow> js_index0 (JArr ts) | t \<Rightarrow> t) in
            if ty = JStr ''object'' then
              (let requiredFields = js_or (get_prop schema ''required'') (JArr []) in
               if truthy (get_prop schema ''properties'') then
                 on_value (\<lambda>kvs. JObj (concat kvs)) (collect (map (\<lambda>kv.
                     case required_includes requiredFields (fst kv) of
                       None \<Rightarrow> Inl includes_not_function
                     | Some False \<Rightarrow> Inr []
                     | Some True \<Rightarrow> on_value (assign (fst kv)) (generateExample E (snd kv)))
                   (entries (get_prop schema ''properties''))))
               else Inr (JObj []))
            else if ty = JStr ''array'' then
              (if truthy (get_prop schema ''items'')
               then on_value (\<lambda>e. JArr [e]) (generateExample E (get_prop schema ''items''))
               else Inr (JArr []))
            else if ty = JStr ''string'' then Inr (JStr ''example_string'')
            else if ty = JStr ''number'' \<or> ty = JStr ''integer'' then Inr (JNum 123)
            else if ty = JStr ''boolean'' then Inr (JBool True)
            else if ty = JStr ''null'' then Inr JNull
            else Inr (JObj []))"
  by pat_completeness auto
termination
proof (relation "measure (\<lambda>p. jsize (snd p))")
  have less_map_of: "jsize v < sum_list (map (\<lambda>kv. Suc (jsize (snd kv))) kvs)"
    if "map_of kvs k = Some v" for kvs :: "(string \<times> json) list" and k v
    using that by (induction kvs) (auto split: if_splits)
  have less_prop: "jsize (get_prop v k) < jsize v" if "get_prop v k \<noteq> JUndef" for v k
    using that by (cases v) (auto split: option.splits dest: less_map_of)
  have less_member: "jsize x < sum_list (map (\<lambda>x. Suc (jsize x)) xs)" if "x \<in> set xs" for x xs
    using that by (induction xs) auto
  have less_member_snd: "jsize (snd kv) < sum_list (map (\<lambda>kv. Suc (jsize (snd kv))) kvs)"
    if "kv \<in> set kvs" for kv :: "string \<times> json" and kvs
    using that by (induction kvs) auto
  have le_entries: "jsize (snd kv) \<le> jsize p" if mem: "kv \<in> set (entries p)" for kv p
  proof (cases p)
    case (JArr xs)
    obtain k v where "kv = (k, v)" by (cases kv)
    with mem JArr have "snd kv \<in> set xs" by (auto dest: set_zip_rightD)
    with JArr show ?thesis by (auto dest: less_member)
  next
    case (JObj kvs)
    with mem show ?thesis by (auto dest: less_member_snd)
  next
    case (JStr s)
    obtain k v where "kv = (k, v)" by (cases kv)
    with mem JStr have "snd kv \<in> set (map (\<lambda>c. JStr [c]) s)"
      by (auto dest: set_zip_rightD)
    then show ?thesis by auto
  qed (use mem in auto)
  show "wf (measure (\<lambda>p. jsize (snd p)))" by simp
  show "((E, snd kv), (E, schema)) \<in> measure (\<lambda>p. jsize (snd p))"
    if "truthy (get_prop schema ''properties'')"
      and "kv \<in> set (entries (get_prop schema ''properties''))"
    for E :: env and schema :: json and kv
  proof -
    from that have "jsize (snd kv) \<le> jsize (get_prop schema ''properties'')"
      and "get_prop schema ''properties'' \<noteq> JUndef"
      by (auto dest: le_entries)
    then have "jsize (snd kv) < jsize schema"
      using less_prop [of schema "''properties''"] by simp
    then show ?thesis by simp
  qed
  show "((E, get_prop schema ''items''), (E, schema)) \<in> measure (\<lambda>p. jsize (snd p))"
    if "truthy (get_prop schema ''items'')" for E :: env and schema :: json
  proof -
    from that have "get_prop schema ''items'' \<noteq> JUndef" by auto
    then show ?thesis using less_prop [of schema "''items''"] by simp
  qed
qed

declare generateExample.simps [simp del]

section \<open>Tools, calls, messages and the session state\<close>

text \<open>A tool definition \<^verbatim>\<open>{type: "function", function: {name, description, parameters}}\<close>.\<close>

record tool =
  tool_name :: string
  description :: "string option"
  parameters :: json

text \<open>A tool call \<^verbatim>\<open>{id, type: "function", function: {name, arguments}}\<close>.\<close>

record call =
  call_id :: string
  name :: string
  arguments :: string

datatype server_status = Idle | Connecting | Connected | Errored | Disabled

text \<open>
  An entry of \<^verbatim>\<open>mcpServers\<close>.  \<open>client\<close> is \<^verbatim>\<open>s.client.tools\<close>, and \<open>None\<close> when
  \<^verbatim>\<open>s.client\<close> is \<^verbatim>\<open>null\<close>.
\<close>

record server =
  url :: string
  enabled :: bool
  status :: server_status
  client :: "tool list option"

datatype role = User | Assistant | ToolRole

text \<open>
  A conversation message.  Its content is a string, \<^verbatim>\<open>null\<close> (an assistant message
  that only carries calls) or \<^verbatim>\<open>undefined\<close> (a value without JSON text was
  serialized).  \<open>is_error\<close> is \<open>False\<close> also where the JavaScript leaves the field out.
\<close>

record message =
  role :: role
  content :: json
  tool_call_id :: "string option"
  msg_name :: "string option"
  is_error :: bool
  tool_calls :: "call list"

text \<open>The Tool message for a call, with a value and with a text as its content.\<close>

definition tool_reply :: "call \<Rightarrow> json \<Rightarrow> bool \<Rightarrow> message" where
  "tool_reply c v err =
     \<lparr>role = ToolRole, content = v, tool_call_id = Some (call_id c),
      msg_name = Some (name c), is_error = err, tool_calls = []\<rparr>"

definition tool_message :: "call \<Rightarrow> string \<Rightarrow> bool \<Rightarrow> message" where
  "tool_message c txt err = tool_reply c (JStr txt) err"

text \<open>
  \<^verbatim>\<open>JSON.stringify(v, null, 2)\<close> as the content of a message: \<^verbatim>\<open>undefined\<close> has no
  JSON text and stays \<^verbatim>\<open>undefined\<close>.
\<close>

definition stringify2_content :: "env \<Rightarrow> json \<Rightarrow> json" where
  "stringify2_content E v = (if v = JUndef then JUndef else JStr (JSON_stringify2 E v))"

text \<open>The outcome of \<^verbatim>\<open>validateToolCall\<close>: \<^verbatim>\<open>{valid, error, schema}\<close>.\<close>

datatype validation = Valid | Invalid (error: string) (schema: json)

fun valid :: "validation \<Rightarrow> bool" where
  "valid Valid = True"
| "valid (Invalid e sc) = False"

text \<open>\<^verbatim>\<open>pendingToolCalls.value\<close>: the suspended batch and the deferred error call.\<close>

record pending =
  calls :: "call list"
  errorCall :: "(call \<times> validation) option"

text \<open>
  The module-level state of the chat composable, the \<^verbatim>\<open>mcp_allow_all\<close> item of
  \<^verbatim>\<open>localStorage\<close> and the log of effects.
\<close>

record state =
  messages :: "message list"
  pendingToolCalls :: "pending option"
  sessionAllowed :: "string set"
  mcp_allow_all :: "string option"
  useSafeEval :: bool
  mcpServers :: "server list"
  activeChatId :: "string option"
  isGenerating :: bool
  effects :: "effect list"


subsection \<open>The tool registry\<close>

definition getToolSchema_def_tool :: tool where
  "getToolSchema_def_tool =
     \<lparr>tool_name = ''getToolSchema'',
      description = Some ''Get the input schema for a specific tool.'',
      parameters = JObj [
        (''type'', JStr ''object''),
        (''properties'', JObj [
          (''name'', JObj [(''type'', JStr ''string''),
                          (''description'', JStr ''The name of the tool to inspect.'')])]),
        (''required'', JArr [JStr ''name''])]\<rparr>"

definition evalCode_def_tool :: tool where
  "evalCode_def_tool =
     \<lparr>tool_name = ''evalCode'',
      description = Some
        ''Execute JavaScript code. Use this for math, date/time, text processing, or logic.'',
      parameters = JObj [
        (''type'', JStr ''object''),
        (''properties'', JObj [
          (''code'', JObj [(''type'', JStr ''string''),
                          (''description'', JStr (''The JavaScript code to execute. The last expression must include return statement. ''
                              @ ''e.g: return Math.sqrt(144)''))])]),
        (''required'', JArr [JStr ''code''])]\<rparr>"

definition listTools_def_tool :: tool where
  "listTools_def_tool =
     \<lparr>tool_name = ''listTools'',
      description = Some (''List available tools. Returns a list of tool names and descriptions. ''
         @ ''Supports searching by query string (BM25-like ranking) or regex.''),
      parameters = JObj [
        (''type'', JStr ''object''),
        (''properties'', JObj [
          (''query'', JObj [(''type'', JStr ''string''),
                           (''description'', JStr ''Optional search query to filter tools.'')]),
          (''use_regex'', JObj [(''type'', JStr ''boolean''),
                               (''description'', JStr ''If true, treats the query as a regular expression.'')])])]\<rparr>"

definition virtualTools :: "tool list" where
  "virtualTools = [getToolSchema_def_tool, evalCode_def_tool, listTools_def_tool]"

text \<open>
  The \<^verbatim>\<open>tools\<close> component of \<^verbatim>\<open>buildSystemPrompt()\<close>: the built-ins, then the tools of
  every server that is enabled, connected and has a client.
\<close>

definition fullTools :: "server list \<Rightarrow> tool list" where
  "fullTools servers =
     virtualTools @
     concat (map (\<lambda>sv. case client sv of Some ts \<Rightarrow> ts | None \<Rightarrow> [])
       (filter (\<lambda>sv. enabled sv \<and> status sv = Connected \<and> client sv \<noteq> None) servers))"

section \<open>The schema validator\<close>

text \<open>
  \<^verbatim>\<open>validateToolCall(call, activeTools)\<close>.  An exception of \<^verbatim>\<open>JSON.parse\<close> or of
  \<^verbatim>\<open>ajv.compile\<close> lands in the same \<^verbatim>\<open>catch\<close>.
\<close>

definition validateToolCall :: "env \<Rightarrow> call \<Rightarrow> tool list \<Rightarrow> validation" where
  "validateToolCall E c activeTools =
     (if name c = ''getToolSchema'' then Valid
      else case find (\<lambda>t. tool_name t = name c) activeTools of
        None \<Rightarrow> Invalid (''Tool '' @ quoted (name c) @ '' not found.'') JUndef
      | Some toolDef \<Rightarrow>
          (case JSON_parse E (arguments c) of
             Inl msg \<Rightarrow> Invalid (''Invalid JSON arguments: '' @ msg) (parameters toolDef)
           | Inr args \<Rightarrow>
               if truthy (parameters toolDef) then
                 (case ajv E (parameters toolDef) args of
                    AjvThrows msg \<Rightarrow>
                      Invalid (''Invalid JSON arguments: '' @ msg) (parameters toolDef)
                  | AjvErrors txt \<Rightarrow> Invalid txt (parameters toolDef)
                  | AjvOk \<Rightarrow> Valid)
               else Valid))"

section \<open>Sequencing and deduplication\<close>

text \<open>\<^verbatim>\<open>xs.findIndex(p)\<close>, with \<open>None\<close> for \<^verbatim>\<open>-1\<close>.\<close>

fun findIndex :: "('a \<Rightarrow> bool) \<Rightarrow> 'a list \<Rightarrow> nat option" where
  "findIndex p [] = None"
| "findIndex p (x # xs) = (if p x then Some 0 else map_option Suc (findIndex p xs))"

text \<open>
  The pre-validation block of \<^verbatim>\<open>handleWorkerResponse\<close>: the calls to process (before
  deduplication) and the error call.
\<close>

definition sequenceCalls ::
  "env \<Rightarrow> tool list \<Rightarrow> call list \<Rightarrow> call list \<times> (call \<times> validation) option" where
  "sequenceCalls E activeTools toolCalls =
     (let validationResults = map (\<lambda>c. (c, validateToolCall E c activeTools)) toolCalls in
      case findIndex (\<lambda>r. \<not> valid (snd r)) validationResults of
        Some firstInvalidIndex \<Rightarrow>
          (map fst (take firstInvalidIndex validationResults),
           Some (validationResults ! firstInvalidIndex))
      | None \<Rightarrow> (toolCalls, None))"

definition dedup_key :: "call \<Rightarrow> string" where
  "dedup_key c = name c @ ''::'' @ arguments c"

text \<open>The deduplication loop; \<open>seen\<close> holds the keys of the \<^verbatim>\<open>Map\<close>.\<close>

fun dedup_loop :: "string set \<Rightarrow> call list \<Rightarrow> call list" where
  "dedup_loop seen [] = []"
| "dedup_loop seen (c # cs) =
     (if dedup_key c \<notin> seen then c # dedup_loop (insert (dedup_key c) seen) cs
      else dedup_loop seen cs)"

definition deduplicate :: "call list \<Rightarrow> call list" where
  "deduplicate callsToProcess = dedup_loop {} callsToProcess"

section \<open>The permission gate\<close>

definition alwaysAllowed :: "string list" where
  "alwaysAllowed = [''getToolSchema'', ''listTools'']"

definition allowAll :: "state \<Rightarrow> bool" where
  "allowAll s = (mcp_allow_all s = Some ''true'')"

definition needsApproval :: "state \<Rightarrow> call list \<Rightarrow> call list" where
  "needsApproval s callsToProcess =
     filter (\<lambda>c. \<not> (name c \<in> set alwaysAllowed \<or> allowAll s \<or> name c \<in> sessionAllowed s))
       callsToProcess"

section \<open>The execution pipeline\<close>

text \<open>
  \<^verbatim>\<open>pushMessage\<close> appends only while a chat is active (otherwise it logs an error and
  drops the message); \<^verbatim>\<open>postChatToWorker\<close> sends the history to the inference engine.
\<close>

definition pushMessage :: "message \<Rightarrow> state \<Rightarrow> state" where
  "pushMessage m s =
     (case activeChatId s of
        Some cid \<Rightarrow> if cid \<noteq> [] then s\<lparr>messages := messages s @ [m]\<rparr> else s
      | None \<Rightarrow> s)"

definition chat_active :: "state \<Rightarrow> bool" where
  "chat_active s = (case activeChatId s of Some cid \<Rightarrow> cid \<noteq> [] | None \<Rightarrow> False)"

definition postChatToWorker :: "state \<Rightarrow> state" where
  "postChatToWorker s = s\<lparr>effects := effects s @ [PostChat]\<rparr>"

subsection \<open>getToolSchema\<close>

definition exec_getToolSchema :: "env \<Rightarrow> tool list \<Rightarrow> call \<Rightarrow> state \<Rightarrow> state" where
  "exec_getToolSchema E activeTools c s =
     (case JSON_parse E (arguments c) of
        Inl msg \<Rightarrow> pushMessage (tool_message c (''Error: '' @ msg) False) s
      | Inr args \<Rightarrow>
          if nullish args
          then pushMessage (tool_message c (''Error: '' @ typeError_read args ''tool_name'') False) s
          else
            let toolName = js_or (js_or (get_prop args ''tool_name'') (get_prop args ''name''))
                             (get_prop args ''tool'') in
            (case find (\<lambda>t. JStr (tool_name t) = toolName) activeTools of
               Some found \<Rightarrow>
                 pushMessage (tool_reply c (stringify2_content E (parameters found)) False) s
             | None \<Rightarrow>
                 (case js_to_string E toolName of
                    Some t \<Rightarrow>
                      pushMessage (tool_message c
                        (''Error: '' @ ''Tool '' @ quoted t @ '' not found.'') False) s
                  | None \<Rightarrow>
                      pushMessage (tool_message c (''Error: '' @ cannot_convert) False) s)))"

subsection \<open>listTools\<close>

definition desc_text :: "tool \<Rightarrow> string" where
  "desc_text t = (case description t of Some d \<Rightarrow> d | None \<Rightarrow> [])"

text \<open>The score of one tool for the lower-cased query and its terms.\<close>

definition score_tool :: "string \<Rightarrow> string list \<Rightarrow> tool \<Rightarrow> rat" where
  "score_tool q terms t =
     (let nameTokens = split_W (toLowerCase (tool_name t));
          descTokens = split_W (toLowerCase (desc_text t));
          docTokens = nameTokens @ descTokens;
          score0 = (if str_includes (toLowerCase (tool_name t)) (toLowerCase q) then 10 else 0)
      in fold (\<lambda>term score.
           let tf = length (filter (\<lambda>dt. dt = term) docTokens);
               score1 = (if 0 < tf then score + of_nat tf * 2 else score)
           in if \<exists>dt \<in> set docTokens. str_includes dt term then score1 + 1 / 2 else score1)
         terms score0)"

text \<open>
  The tools that a \<^verbatim>\<open>listTools\<close> call reports, or the message of the exception.  The
  sort is stable and descending by score.
\<close>

definition listTools_results :: "env \<Rightarrow> tool list \<Rightarrow> json \<Rightarrow> json \<Rightarrow> string + tool list" where
  "listTools_results E activeTools query useRegex =
     (if truthy query then
        if truthy useRegex then
          (case RegExp_i E query of
             Inl msg \<Rightarrow> Inl (''Invalid Regex: '' @ msg)
           | Inr test \<Rightarrow>
               Inr (filter (\<lambda>t. test (tool_name t) \<or> test (desc_text t)) activeTools))
        else
          (case query of
             JStr q \<Rightarrow>
               (let terms = filter (\<lambda>t. t \<noteq> []) (split_W (toLowerCase q)) in
                if terms \<noteq> [] then
                  Inr (map fst
                    (sort_key (\<lambda>r. - snd r)
                      (filter (\<lambda>r. 0 < snd r)
                        (map (\<lambda>t. (t, score_tool q terms t)) activeTools))))
                else Inr activeTools)
           | _ \<Rightarrow> Inl ''query.toLowerCase is not a function'')
      else Inr activeTools)"

definition listTools_response :: "env \<Rightarrow> tool list \<Rightarrow> string" where
  \<open>listTools_response E results =
     (let response = map (\<lambda>t. JObj [(''name'', JStr (tool_name t)),
            (''description'', case description t of Some d \<Rightarrow> JStr d | None \<Rightarrow> JUndef)]) results
      in ''AVAILABLE TOOLS ('' @ show_nat (length response) @ '' found):'' @ nl @ nl @
         JSON_stringify2 E (JArr response) @ nl @ nl @
         ''These are the available tools. Only use them if the user's request requires it. '' @
         ''To learn how to use a tool, call getToolSchema with the tool name.'')\<close>

definition exec_listTools :: "env \<Rightarrow> tool list \<Rightarrow> call \<Rightarrow> state \<Rightarrow> state" where
  "exec_listTools E activeTools c s =
     (let args = (case JSON_parse E (if arguments c = [] then ''{}'' else arguments c) of
                    Inl msg \<Rightarrow> JObj [] | Inr a \<Rightarrow> a) in
      if nullish args
      then pushMessage (tool_message c (''Error: '' @ typeError_read args ''query'') True) s
      else
        (case listTools_results E activeTools (get_prop args ''query'') (get_prop args ''use_regex'') of
           Inl msg \<Rightarrow> pushMessage (tool_message c (''Error: '' @ msg) True) s
         | Inr results \<Rightarrow> pushMessage (tool_message c (listTools_response E results) False) s))"

subsection \<open>evalCode\<close>

text \<open>Whether the loop goes on to the next call or leaves by \<^verbatim>\<open>break\<close>.\<close>

datatype flow = Continue | Break

text \<open>The part after the inner \<^verbatim>\<open>try\<close>: flag, message, \<^verbatim>\<open>break\<close> on an error.\<close>

definition finish_eval :: "env \<Rightarrow> call \<Rightarrow> json \<Rightarrow> state \<Rightarrow> state \<times> flow" where
  "finish_eval E c result s =
     (let isError = (case result of JStr t \<Rightarrow> startsWith t ''Eval Error:'' | _ \<Rightarrow> False);
          content = (case result of JStr t \<Rightarrow> JStr t | v \<Rightarrow> stringify2_content E v)
      in (pushMessage (tool_reply c content isError) s, if isError then Break else Continue))"

text \<open>The handler of the outer \<^verbatim>\<open>try\<close>: an error-flagged message, then \<^verbatim>\<open>break\<close>.\<close>

definition eval_caught :: "call \<Rightarrow> string \<Rightarrow> state \<Rightarrow> state \<times> flow" where
  "eval_caught c msg s = (pushMessage (tool_message c (''Error: '' @ msg) True) s, Break)"

text \<open>
  \<^verbatim>\<open>result = "Eval Error: " + v\<close>, in the inner \<^verbatim>\<open>try\<close> for the error of the
  sandbox (\<open>inner\<close>: a TypeError of the conversion is caught by the inner handler, which
  reports its message in the same form) and in the inner handler itself for the message
  of a thrown value (a TypeError then reaches the outer handler).
\<close>

definition eval_error :: "env \<Rightarrow> call \<Rightarrow> bool \<Rightarrow> json \<Rightarrow> state \<Rightarrow> state \<times> flow" where
  "eval_error E c inner v s =
     (case js_to_string E v of
        Some t \<Rightarrow> finish_eval E c (JStr (''Eval Error: '' @ t)) s
      | None \<Rightarrow>
          if inner then finish_eval E c (JStr (''Eval Error: '' @ cannot_convert)) s
          else eval_caught c cannot_convert s)"

definition exec_evalCode :: "env \<Rightarrow> call \<Rightarrow> state \<Rightarrow> state \<times> flow" where
  "exec_evalCode E c s =
     (case JSON_parse E (arguments c) of
        Inl msg \<Rightarrow> eval_caught c msg s
      | Inr args \<Rightarrow>
          if nullish args then eval_caught c (typeError_read args ''code'') s
          else
            let code = get_prop args ''code'' in
            if useSafeEval s then
              (let s1 = s\<lparr>effects := effects s @ [EvalSafe code]\<rparr> in
               case evalSafe E (effects s) code of
                 SafeSuccess r \<Rightarrow> finish_eval E c r s1
               | SafeFailure e \<Rightarrow> eval_error E c True e s1
               | SafeRejected m \<Rightarrow> finish_eval E c (JStr (''Eval Error: '' @ m)) s1)
            else
              (let s1 = s\<lparr>effects := effects s @ [EvalDirect code]\<rparr> in
               case runFunction E (effects s) code of
                 Returned r \<Rightarrow> finish_eval E c r s1
               | Threw evalErr \<Rightarrow>
                   if nullish evalErr then eval_caught c (typeError_read evalErr ''message'') s1
                   else eval_error E c False (get_prop evalErr ''message'') s1))"

subsection \<open>Remote tools\<close>

text \<open>
  The server that a call is sent to.  A connected server has a client
  (\<^verbatim>\<open>connectServer\<close> creates it before it sets the status).
\<close>

definition find_server :: "server list \<Rightarrow> string \<Rightarrow> server option" where
  "find_server servers n =
     find (\<lambda>sv. enabled sv \<and> status sv = Connected \<and>
        (case client sv of Some ts \<Rightarrow> \<exists>t \<in> set ts. tool_name t = n | None \<Rightarrow> False)) servers"

definition exec_remote :: "env \<Rightarrow> tool list \<Rightarrow> call \<Rightarrow> state \<Rightarrow> state \<times> flow" where
  "exec_remote E activeTools c s =
     (case (find_server (mcpServers s) (name c), find (\<lambda>t. tool_name t = name c) activeTools) of
        (Some sv, Some toolDef) \<Rightarrow>
          (case JSON_parse E (arguments c) of
             Inl msg \<Rightarrow> (pushMessage (tool_message c (''Error: '' @ msg) True) s, Break)
           | Inr args \<Rightarrow>
               (case (if truthy (parameters toolDef) then ajv E (parameters toolDef) args else AjvOk) of
                  AjvThrows msg \<Rightarrow> (pushMessage (tool_message c (''Error: '' @ msg) True) s, Break)
                | r \<Rightarrow>
                    (case (case r of AjvErrors txt \<Rightarrow> txt | _ \<Rightarrow> []) of
                       [] \<Rightarrow>
                         (let s1 = s\<lparr>effects := effects s @ [CallTool (url sv) (name c) args]\<rparr> in
                          case callTool E (effects s) (url sv) (name c) args of
                            Inl msg \<Rightarrow>
                              (pushMessage (tool_message c (''Error: '' @ msg) True) s1, Break)
                          | Inr result \<Rightarrow> (pushMessage (tool_message c result False) s1, Continue))
                     | validationError \<Rightarrow>
                         (case generateExample E (parameters toolDef) of
                            Inl msg \<Rightarrow>
                              (pushMessage (tool_message c (''Error: '' @ msg) True) s, Break)
                          | Inr argsExample \<Rightarrow>
                              (pushMessage (tool_message c
                                 (''Error: Invalid arguments: '' @ validationError @ ''. '' @ nl @ nl @
                                  ''Expected Schema:'' @ nl @ JSON_stringify2 E (parameters toolDef) @
                                  nl @ nl @ ''Expected Request Example Payload:'' @ nl @
                                  JSON_stringify2 E
                                    (JObj [(''name'', JStr (name c)), (''arguments'', argsExample)]) @
                                  nl @ nl @
                                  ''Please correct your input payload based on the schema and try again.'')
                                 True) s,
                               Break)))))
      | _ \<Rightarrow>
          (pushMessage (tool_message c ''Error: Tool not found on any connected server.'' True) s,
           Break))"

subsection \<open>The loop\<close>

text \<open>
  One iteration of the \<^verbatim>\<open>for\<close> loop of \<^verbatim>\<open>executeTools\<close>.  The \<^verbatim>\<open>getToolSchema\<close>
  block does not end in \<^verbatim>\<open>continue\<close>: control goes on to the tests that follow it.
\<close>

definition exec_call :: "env \<Rightarrow> tool list \<Rightarrow> call \<Rightarrow> state \<Rightarrow> state \<times> flow" where
  "exec_call E activeTools c s =
     (let s1 = (if name c = ''getToolSchema'' then exec_getToolSchema E activeTools c s else s) in
      if name c = ''listTools'' then (exec_listTools E activeTools c s1, Continue)
      else if name c = ''evalCode'' then exec_evalCode E c s1
      else exec_remote E activeTools c s1)"

fun exec_loop :: "env \<Rightarrow> tool list \<Rightarrow> call list \<Rightarrow> state \<Rightarrow> state" where
  "exec_loop E activeTools [] s = s"
| "exec_loop E activeTools (c # cs) s =
     (case exec_call E activeTools c s of
        (s1, Continue) \<Rightarrow> exec_loop E activeTools cs s1
      | (s1, Break) \<Rightarrow> s1)"

definition executeTools :: "env \<Rightarrow> call list \<Rightarrow> state \<Rightarrow> state" where
  "executeTools E cs s = postChatToWorker (exec_loop E (fullTools (mcpServers s)) cs s)"

section \<open>The conversation loop\<close>

text \<open>
  The corrective message for the error call, as \<^verbatim>\<open>runExecution\<close> builds it; \<open>None\<close>
  where \<^verbatim>\<open>generateExample\<close> throws.
\<close>

definition error_content :: "env \<Rightarrow> call \<Rightarrow> validation \<Rightarrow> string option" where
  \<open>error_content E c r =
     (if truthy (schema r) then
        map_option (\<lambda>argsExample.
          ''Error: '' @ error r @ nl @ nl @ ''Expected Schema:'' @ nl @
          JSON_stringify2 E (schema r) @ nl @ nl @ ''Expected Example:'' @ nl @
          JSON_stringify2 E (JObj [(''name'', JStr (name c)), (''arguments'', argsExample)]) @
          nl @ nl @ ''You MUST generate a NEW tool call with the name '' @ quoted (name c) @
          '' and the corrected arguments based on the JSON schema above.'')
          (case generateExample E (schema r) of Inl msg \<Rightarrow> None | Inr ex \<Rightarrow> Some ex)
      else Some (''Error: '' @ error r @ nl @ nl @ ''The tool '' @ quoted (name c) @
          '' does not exist. Use '{"name": "listTools", "arguments": {}}' to see available tools.''))\<close>


definition report_error ::
  "(env \<Rightarrow> call \<Rightarrow> validation \<Rightarrow> string option) \<Rightarrow> env \<Rightarrow> (call \<times> validation) option \<Rightarrow> state \<Rightarrow> state" where
  "report_error mk E ec s =
     (case ec of
        None \<Rightarrow> s
      | Some (c, r) \<Rightarrow>
          (case mk E c r of
             None \<Rightarrow> s
           | Some txt \<Rightarrow> postChatToWorker (pushMessage (tool_message c txt False) s)))"

definition runExecution :: "env \<Rightarrow> call list \<Rightarrow> (call \<times> validation) option \<Rightarrow> state \<Rightarrow> state" where
  "runExecution E callsToProcess ec s =
     report_error error_content E ec
       (if callsToProcess \<noteq> [] then executeTools E callsToProcess s else s)"

definition handleWorkerResponse :: "env \<Rightarrow> message \<Rightarrow> state \<Rightarrow> state" where
  "handleWorkerResponse E msg s =
     (if tool_calls msg \<noteq> [] then
        (case sequenceCalls E (fullTools (mcpServers s)) (tool_calls msg) of
           (callsToProcess0, ec) \<Rightarrow>
             let callsToProcess = deduplicate callsToProcess0;
                 visibleCalls = callsToProcess @ (case ec of Some (c, r) \<Rightarrow> [c] | None \<Rightarrow> []);
                 s1 = s\<lparr>messages := messages s @ [msg\<lparr>tool_calls := visibleCalls\<rparr>]\<rparr>
             in if needsApproval s callsToProcess = []
                then runExecution E callsToProcess ec s1
                else s1\<lparr>pendingToolCalls := Some \<lparr>calls = callsToProcess, errorCall = ec\<rparr>\<rparr>)
      else s\<lparr>messages := messages s @ [msg], isGenerating := False\<rparr>)"




section \<open>The call extractor\<close>











definition dquote :: char where
  "dquote = CHR 0x22"

definition backslash :: char where
  "backslash = CHR 0x5C"













section \<open>A reference serializer and a sample environment\<close>

text \<open>
  \<^verbatim>\<open>JSON.stringify(v)\<close> and \<^verbatim>\<open>JSON.stringify(v, null, 2)\<close> on the values above whose
  numbers are safe integers (a property whose value is \<^verbatim>\<open>undefined\<close> is left out, an
  \<^verbatim>\<open>undefined\<close> array element is \<^verbatim>\<open>null\<close>).  The code never asks the platform for the
  text of \<^verbatim>\<open>undefined\<close> itself, which has none; its name stands there.
\<close>

definition hex_digit :: "nat \<Rightarrow> char" where
  "hex_digit d = (if d < 10 then char_of (48 + d) else char_of (87 + d))"

definition escape_char :: "char \<Rightarrow> string" where
  "escape_char c =
     (if c = CHR 0x22 then [CHR 0x5C, CHR 0x22]
      else if c = CHR 0x5C then [CHR 0x5C, CHR 0x5C]
      else if c = CHR 0x08 then [CHR 0x5C, CHR ''b'']
      else if c = CHR 0x0C then [CHR 0x5C, CHR ''f'']
      else if c = CHR 0x0A then [CHR 0x5C, CHR ''n'']
      else if c = CHR 0x0D then [CHR 0x5C, CHR ''r'']
      else if c = CHR 0x09 then [CHR 0x5C, CHR ''t'']
      else if code_of c < 32
        then [CHR 0x5C, CHR ''u'', CHR ''0'', CHR ''0'', hex_digit (code_of c div 16), hex_digit (code_of c mod 16)]
      else [c])"

definition quote_string :: "string \<Rightarrow> string" where
  "quote_string s = CHR 0x22 # concat (map escape_char s) @ [CHR 0x22]"

fun stringify :: "json \<Rightarrow> string" where
  "stringify JUndef = ''undefined''"
| "stringify JNull = ''null''"
| "stringify (JBool b) = (if b then ''true'' else ''false'')"
| "stringify (JNum n) = show_int n"
| "stringify (JStr s) = quote_string s"
| "stringify (JArr xs) =
     ''['' @ intersperse '','' (map (\<lambda>x. if x = JUndef then ''null'' else stringify x) xs) @ '']''"
| "stringify (JObj kvs) =
     ''{'' @ intersperse '',''
        (map (\<lambda>kv. quote_string (fst kv) @ '':'' @ stringify (snd kv))
           (filter (\<lambda>kv. snd kv \<noteq> JUndef) kvs)) @ ''}''"

fun stringify2 :: "string \<Rightarrow> json \<Rightarrow> string" where
  "stringify2 ind JUndef = ''undefined''"
| "stringify2 ind JNull = ''null''"
| "stringify2 ind (JBool b) = (if b then ''true'' else ''false'')"
| "stringify2 ind (JNum n) = show_int n"
| "stringify2 ind (JStr s) = quote_string s"
| "stringify2 ind (JArr xs) =
     (if xs = [] then ''[]''
      else ''['' @ nl @ intersperse ('','' @ nl)
        (map (\<lambda>x. ind @ ''  '' @ (if x = JUndef then ''null'' else stringify2 (ind @ ''  '') x)) xs)
        @ nl @ ind @ '']'')"
| "stringify2 ind (JObj kvs) =
     (if filter (\<lambda>kv. snd kv \<noteq> JUndef) kvs = [] then ''{}''
      else ''{'' @ nl @ intersperse ('','' @ nl)
        (map (\<lambda>kv. ind @ ''  '' @ quote_string (fst kv) @ '': '' @ stringify2 (ind @ ''  '') (snd kv))
           (filter (\<lambda>kv. snd kv \<noteq> JUndef) kvs))
        @ nl @ ind @ ''}'')"

text \<open>
  A validator for the fragment of JSON Schema that the built-in tools use: an object
  type with \<^verbatim>\<open>required\<close> keys and string or boolean properties.  The error texts are
  Ajv's.
\<close>

definition mini_type_ok :: "json \<Rightarrow> json \<Rightarrow> bool" where
  "mini_type_ok ty v =
     (if ty = JStr ''string'' then (case v of JStr _ \<Rightarrow> True | _ \<Rightarrow> False)
      else if ty = JStr ''boolean'' then (case v of JBool _ \<Rightarrow> True | _ \<Rightarrow> False)
      else if ty = JStr ''object'' then (case v of JObj _ \<Rightarrow> True | _ \<Rightarrow> False)
      else True)"

definition str_of :: "json \<Rightarrow> string" where
  "str_of v = (case v of JStr t \<Rightarrow> t | _ \<Rightarrow> [])"

definition mini_ajv :: "json \<Rightarrow> json \<Rightarrow> ajv_result" where
  "mini_ajv sc args =
     (if \<not> mini_type_ok (get_prop sc ''type'') args then AjvErrors ''data must be object''
      else
        case filter (\<lambda>k. get_prop args (str_of k) = JUndef)
               (case get_prop sc ''required'' of JArr ks \<Rightarrow> ks | _ \<Rightarrow> []) of
          k # _ \<Rightarrow> AjvErrors (''data must have required property '' @ quoted (str_of k))
        | [] \<Rightarrow>
            (case filter (\<lambda>kv. get_prop args (fst kv) \<noteq> JUndef \<and>
                     \<not> mini_type_ok (get_prop (snd kv) ''type'') (get_prop args (fst kv)))
                    (entries (get_prop sc ''properties'')) of
               kv # _ \<Rightarrow> AjvErrors (''data/'' @ fst kv @ '' must be '' @ str_of (get_prop (snd kv) ''type''))
             | [] \<Rightarrow> AjvOk))"

text \<open>
  \<^verbatim>\<open>JSON.parse\<close> on the texts that the examples below use; any other text that reaches
  it in an example is not JSON.
\<close>

definition sample_parse :: "string \<Rightarrow> string + json" where
  \<open>sample_parse txt =
     (if txt = [] then Inl ''Unexpected end of JSON input''
      else if txt = ''{}'' then Inr (JObj [])
      else if txt = ''{"a":1}'' then Inr (JObj [(''a'', JNum 1)])
      else if txt = ''{"name":"evalCode"}'' then Inr (JObj [(''name'', JStr ''evalCode'')])
      else if txt = ''{"query":"_"}'' then Inr (JObj [(''query'', JStr ''_'')])
      else if txt = ''{"query":"?!"}'' then Inr (JObj [(''query'', JStr ''?!'')])
      else if txt = ''{"code":"while(true){}"}''
        then Inr (JObj [(''code'', JStr ''while(true){}'')])
      else if txt = ''{"code":"throw null"}'' then Inr (JObj [(''code'', JStr ''throw null'')])
      else if txt = ''{"a":"1"}'' then Inr (JObj [(''a'', JStr ''1'')])
      else if txt = ''{"name":"a","arguments":{"x":1}}''
        then Inr (JObj [(''name'', JStr ''a''), (''arguments'', JObj [(''x'', JNum 1)])])
      else if txt = ''{"name":"a","arguments":{}}''
        then Inr (JObj [(''name'', JStr ''a''), (''arguments'', JObj [])])
      else if txt = ''{"name":"b","arguments":{}}''
        then Inr (JObj [(''name'', JStr ''b''), (''arguments'', JObj [])])
      else if txt = ''{"name":"","arguments":{}}''
        then Inr (JObj [(''name'', JStr []), (''arguments'', JObj [])])
      else if txt = ''[{"name":"b"}]'' then Inr (JArr [JObj [(''name'', JStr ''b'')]])
      else if txt = ''{"name":"a","arguments":{"xs":[{"name":"b"}]}}''
        then Inr (JObj [(''name'', JStr ''a''),
               (''arguments'', JObj [(''xs'', JArr [JObj [(''name'', JStr ''b'')]])])])
      else Inl ''Unexpected token'')\<close>

text \<open>
  The environment of the examples: a sandbox in which every script is stopped by the
  watchdog (their one script there is an endless loop), direct execution in which the
  script \<^verbatim>\<open>throw null\<close> throws that value and any other script returns 1, and a
  server that answers every call with the same text.  A string spells a positive number
  when it consists of decimal digits that are not all zero (no other notation occurs in
  the examples).  The examples use neither regular expressions nor numbers beyond the
  safe integers, so the entries for these are never consulted.
\<close>

definition sample_env :: env where
  "sample_env =
     \<lparr>JSON_parse = sample_parse,
      JSON_stringify = stringify,
      JSON_stringify2 = stringify2 [],
      Number_toString = show_int,
      StringToNumber_positive = (\<lambda>t. list_all is_digit t \<and> list_ex (\<lambda>c. c \<noteq> CHR ''0'') t),
      ajv = mini_ajv,
      RegExp_i = (\<lambda>q. Inl ''Invalid regular expression''),
      evalSafe = (\<lambda>h code. SafeRejected ''Execution timed out (Infinite loop detected?)''),
      runFunction = (\<lambda>h code. if code = JStr ''throw null'' then Threw JNull else Returned (JNum 1)),
      callTool = (\<lambda>h u n args. Inr ''ok'')\<rparr>"

definition sample_tool :: tool where
  "sample_tool =
     \<lparr>tool_name = ''x'', description = Some ''An example tool.'',
      parameters = JObj [(''type'', JStr ''object'')]\<rparr>"

definition sample_server :: server where
  "sample_server =
     \<lparr>url = ''https://mcp.example/mcp'', enabled = True, status = Connected,
      client = Some [sample_tool]\<rparr>"

definition sample_state :: state where
  "sample_state =
     \<lparr>messages = [], pendingToolCalls = None, sessionAllowed = {}, mcp_allow_all = None,
      useSafeEval = True, mcpServers = [sample_server], activeChatId = Some ''chat-1'',
      isGenerating = True, effects = []\<rparr>"

text \<open>
  A session whose one server exposes a tool with a double colon in its name, and in
  which the user has granted every tool.
\<close>

definition colon_tool :: tool where
  "colon_tool =
     \<lparr>tool_name = ''getToolSchema::x'', description = Some ''Another example tool.'',
      parameters = JObj [(''type'', JStr ''object'')]\<rparr>"

definition colon_state :: state where
  "colon_state =
     \<lparr>messages = [], pendingToolCalls = None, sessionAllowed = {}, mcp_allow_all = Some ''true'',
      useSafeEval = True,
      mcpServers = [\<lparr>url = ''https://mcp.example/mcp'', enabled = True, status = Connected,
                       client = Some [colon_tool]\<rparr>],
      activeChatId = Some ''chat-1'', isGenerating = True, effects = []\<rparr>"

definition sample_call :: "string \<Rightarrow> string \<Rightarrow> string \<Rightarrow> call" where
  "sample_call i n a = \<lparr>call_id = i, name = n, arguments = a\<rparr>"


definition sample_message :: "call list \<Rightarrow> message" where
  "sample_message cs =
     \<lparr>role = Assistant, content = JNull, tool_call_id = None, msg_name = None, is_error = False,
      tool_calls = cs\<rparr>"

section \<open>Observations used in the statements\<close>

text \<open>Everything but the history and the effect log is the same in both states.\<close>

definition same_session :: "state \<Rightarrow> state \<Rightarrow> bool" where
  "same_session s s' =
     (pendingToolCalls s' = pendingToolCalls s \<and> sessionAllowed s' = sessionAllowed s \<and>
      mcp_allow_all s' = mcp_allow_all s \<and> useSafeEval s' = useSafeEval s \<and>
      mcpServers s' = mcpServers s \<and> activeChatId s' = activeChatId s \<and>
      isGenerating s' = isGenerating s)"

text \<open>A Tool message that answers the call \<open>c\<close>.\<close>

definition answers :: "call \<Rightarrow> message \<Rightarrow> bool" where
  "answers c m =
     (role m = ToolRole \<and> tool_call_id m = Some (call_id c) \<and> msg_name m = Some (name c))"

text \<open>
  From \<open>s\<close> to \<open>s'\<close> the history grew by exactly the messages \<open>ms\<close>, the effect log by
  \<open>es\<close>, and nothing else changed.
\<close>

definition grew :: "state \<Rightarrow> state \<Rightarrow> message list \<Rightarrow> effect list \<Rightarrow> bool" where
  "grew s s' ms es =
     (same_session s s' \<and> messages s' = messages s @ ms \<and> effects s' = effects s @ es)"

text \<open>From \<open>s\<close> to \<open>s'\<close> exactly \<open>n\<close> messages were appended, all of them answers to \<open>c\<close>.\<close>

definition answered :: "call \<Rightarrow> nat \<Rightarrow> state \<Rightarrow> state \<Rightarrow> bool" where
  "answered c n s s' =
     (\<exists>ms es. length ms = n \<and> (\<forall>m \<in> set ms. answers c m) \<and> grew s s' ms es)"

text \<open>
  From \<open>s\<close> to \<open>s'\<close> only answers to calls of \<open>cs\<close> were appended to the history; the
  effect log may have grown, and nothing else changed.
\<close>

definition extends :: "call list \<Rightarrow> state \<Rightarrow> state \<Rightarrow> bool" where
  "extends cs s s' =
     (\<exists>ms es. list_all (\<lambda>m. list_ex (\<lambda>c. answers c m) cs) ms \<and> grew s s' ms es)"

text \<open>
  The loop of \<^verbatim>\<open>executeTools\<close> once more, together with the way it was left:
  \<open>Continue\<close> when it ran through all calls, \<open>Break\<close> when a call stopped it.
\<close>

fun exec_loop_flow :: "env \<Rightarrow> tool list \<Rightarrow> call list \<Rightarrow> state \<Rightarrow> state \<times> flow" where
  "exec_loop_flow E activeTools [] s = (s, Continue)"
| "exec_loop_flow E activeTools (c # cs) s =
     (case exec_call E activeTools c s of
        (s1, Continue) \<Rightarrow> exec_loop_flow E activeTools cs s1
      | (s1, Break) \<Rightarrow> (s1, Break))"

text \<open>
  The calls that the loop of \<^verbatim>\<open>executeTools\<close> reaches: the calls up to and including
  the first one that leaves the loop by \<^verbatim>\<open>break\<close>.
\<close>

fun attempted :: "env \<Rightarrow> tool list \<Rightarrow> call list \<Rightarrow> state \<Rightarrow> call list" where
  "attempted E activeTools [] s = []"
| "attempted E activeTools (c # cs) s =
     c # (case exec_call E activeTools c s of
            (s1, Continue) \<Rightarrow> attempted E activeTools cs s1
          | (s1, Break) \<Rightarrow> [])"




text \<open>The calls that the persisted assistant message shows.\<close>

definition visibleCalls :: "call list \<Rightarrow> (call \<times> validation) option \<Rightarrow> call list" where
  "visibleCalls callsToProcess ec =
     callsToProcess @ (case ec of Some (c, r) \<Rightarrow> [c] | None \<Rightarrow> [])"

text \<open>
  The schema carries none of the literal keys (\<^verbatim>\<open>example\<close>, \<^verbatim>\<open>default\<close>,
  \<^verbatim>\<open>const\<close>; an \<^verbatim>\<open>enum\<close> is absent or empty).
\<close>

definition no_literal :: "json \<Rightarrow> bool" where
  "no_literal sc =
     (get_prop sc ''example'' = JUndef \<and> get_prop sc ''default'' = JUndef \<and>
      get_prop sc ''const'' = JUndef \<and>
      (get_prop sc ''enum'' = JUndef \<or> get_prop sc ''enum'' = JArr []))"

text \<open>The schema's \<^verbatim>\<open>type\<close> is \<open>t\<close>, or an array of types that starts with \<open>t\<close>.\<close>

definition has_type :: "json \<Rightarrow> string \<Rightarrow> bool" where
  "has_type sc t =
     (case get_prop sc ''type'' of
        JStr u \<Rightarrow> u = t
      | JArr us \<Rightarrow> (case us of JStr u # _ \<Rightarrow> u = t | _ \<Rightarrow> False)
      | _ \<Rightarrow> False)"

text \<open>The keys that the schema lists as required (none when the list is absent).\<close>

definition required_keys :: "json \<Rightarrow> json list" where
  "required_keys sc = (case get_prop sc ''required'' of JArr rs \<Rightarrow> rs | _ \<Rightarrow> [])"

text \<open>The properties that the schema declares (none when \<^verbatim>\<open>properties\<close> is absent).\<close>

definition declared :: "json \<Rightarrow> (string \<times> json) list" where
  "declared sc =
     (if truthy (get_prop sc ''properties'') then entries (get_prop sc ''properties'') else [])"

text \<open>The declared properties that are listed as required, in declaration order.\<close>

definition required_declared :: "json \<Rightarrow> (string \<times> json) list" where
  "required_declared sc = filter (\<lambda>kv. JStr (fst kv) \<in> set (required_keys sc)) (declared sc)"














text \<open>A letter or a digit.\<close>

definition is_alnum :: "char \<Rightarrow> bool" where
  "is_alnum c = ((97 \<le> code_of c \<and> code_of c \<le> 122) \<or> (65 \<le> code_of c \<and> code_of c \<le> 90)
     \<or> (48 \<le> code_of c \<and> code_of c \<le> 57))"


section \<open>Auxiliary facts\<close>

subsection \<open>Deduplication\<close>

lemma dedup_loop_keys: "set (map dedup_key (dedup_loop seen cs)) = set (map dedup_key cs) - seen"
  by (induction cs arbitrary: seen) auto

lemma dedup_loop_distinct: "distinct (map dedup_key (dedup_loop seen cs))"
proof (induction cs arbitrary: seen)
  case (Cons c cs)
  have "dedup_key c \<notin> set (map dedup_key (dedup_loop (insert (dedup_key c) seen) cs))"
    unfolding dedup_loop_keys by simp
  with Cons show ?case by simp
qed simp

lemma dedup_loop_subseq: "subseq (dedup_loop seen cs) cs"
  by (induction cs arbitrary: seen) (auto intro: subseq_Cons')

lemma dedup_loop_union:
  "dedup_loop (seen \<union> t) cs = dedup_loop t (filter (\<lambda>d. dedup_key d \<notin> seen) cs)"
proof (induction cs arbitrary: t)
  case Nil
  show ?case by simp
next
  case (Cons c cs)
  show ?case
  proof (cases "dedup_key c \<in> seen")
    case True
    then show ?thesis using Cons [of t] by simp
  next
    case False
    note out = this
    show ?thesis
    proof (cases "dedup_key c \<in> t")
      case True
      then show ?thesis using out Cons [of t] by simp
    next
      case False
      have "dedup_loop (seen \<union> insert (dedup_key c) t) cs =
            dedup_loop (insert (dedup_key c) t) (filter (\<lambda>d. dedup_key d \<notin> seen) cs)"
        by (rule Cons)
      then show ?thesis using out False by simp
    qed
  qed
qed

lemma dedup_loop_filter:
  "dedup_loop seen cs = dedup_loop {} (filter (\<lambda>d. dedup_key d \<notin> seen) cs)"
  using dedup_loop_union [of seen "{}" cs] by simp

lemma deduplicate_Cons:
  "deduplicate (c # cs) = c # deduplicate (filter (\<lambda>d. dedup_key d \<noteq> dedup_key c) cs)"
  unfolding deduplicate_def using dedup_loop_filter [of "{dedup_key c}" cs] by simp

lemma distinct_pairs:
  assumes "distinct (map dedup_key xs)"
  shows "distinct (map (\<lambda>c. (name c, arguments c)) xs)"
proof -
  have "map dedup_key xs = map (\<lambda>p. fst p @ ''::'' @ snd p) (map (\<lambda>c. (name c, arguments c)) xs)"
    by (simp add: dedup_key_def)
  with assms have "distinct (map (\<lambda>p. fst p @ ''::'' @ snd p) (map (\<lambda>c. (name c, arguments c)) xs))"
    by simp
  then show ?thesis
    using distinct_map [of "\<lambda>p. fst p @ ''::'' @ snd p" "map (\<lambda>c. (name c, arguments c)) xs"]
    by blast
qed

subsection \<open>What a call appends in an active chat\<close>

lemma pushMessage_active:
  "chat_active s \<Longrightarrow> pushMessage m s = s\<lparr>messages := messages s @ [m]\<rparr>"
  by (auto simp: chat_active_def pushMessage_def split: option.splits)

lemma chat_active_effects [simp]: "chat_active (s\<lparr>effects := es\<rparr>) = chat_active s"
  by (simp add: chat_active_def)

lemma chat_active_messages [simp]: "chat_active (s\<lparr>messages := ms\<rparr>) = chat_active s"
  by (simp add: chat_active_def)

lemma grew_refl [simp]: "grew s s [] []"
  by (simp add: grew_def same_session_def)

lemma grew_trans:
  "grew s s1 ms es \<Longrightarrow> grew s1 s2 ms' es' \<Longrightarrow> grew s s2 (ms @ ms') (es @ es')"
  by (simp add: grew_def same_session_def)

lemma grew_chat_active: "grew s s' ms es \<Longrightarrow> chat_active s' = chat_active s"
  by (simp add: grew_def same_session_def chat_active_def)

lemma grew_push:
  "chat_active s \<Longrightarrow> grew s (pushMessage m s) [m] []"
  by (simp add: pushMessage_active grew_def same_session_def)

lemma grew_effect: "grew s (s\<lparr>effects := effects s @ es\<rparr>) [] es"
  by (simp add: grew_def same_session_def)

lemma grew_push_effect:
  "chat_active s \<Longrightarrow> grew s (pushMessage m (s\<lparr>effects := effects s @ es\<rparr>)) [m] es"
  using grew_trans [OF grew_effect grew_push, of s es m] by simp

lemma grew_post: "grew s (postChatToWorker s) [] [PostChat]"
  by (simp add: grew_def same_session_def postChatToWorker_def)

lemma answers_tool_reply [simp]: "answers c (tool_reply c v e)"
  by (simp add: answers_def tool_reply_def)

lemma answers_tool_message [simp]: "answers c (tool_message c txt e)"
  by (simp add: tool_message_def)

lemma answered_reply: "chat_active s \<Longrightarrow> answered c (Suc 0) s (pushMessage (tool_reply c v b) s)"
  unfolding answered_def using grew_push [of s "tool_reply c v b"]
  by (intro exI [of _ "[tool_reply c v b]"] exI [of _ "[]"]) simp

lemma answered_push: "chat_active s \<Longrightarrow> answered c (Suc 0) s (pushMessage (tool_message c t b) s)"
  unfolding tool_message_def by (rule answered_reply)

lemma answered_reply_effect:
  "chat_active s \<Longrightarrow>
   answered c (Suc 0) s (pushMessage (tool_reply c v b) (s\<lparr>effects := effects s @ es\<rparr>))"
  unfolding answered_def using grew_push_effect [of s "tool_reply c v b" es]
  by (intro exI [of _ "[tool_reply c v b]"] exI [of _ es]) simp

lemma answered_push_effect:
  "chat_active s \<Longrightarrow>
   answered c (Suc 0) s (pushMessage (tool_message c t b) (s\<lparr>effects := effects s @ es\<rparr>))"
  unfolding tool_message_def by (rule answered_reply_effect)

lemma answered_trans:
  "answered c n s s1 \<Longrightarrow> answered c k s1 s2 \<Longrightarrow> answered c (n + k) s s2"
proof -
  assume "answered c n s s1" and "answered c k s1 s2"
  then obtain ms es ms' es' where
    a: "length ms = n" "\<forall>m \<in> set ms. answers c m" "grew s s1 ms es" and
    b: "length ms' = k" "\<forall>m \<in> set ms'. answers c m" "grew s1 s2 ms' es'"
    unfolding answered_def by blast
  from grew_trans [OF a(3) b(3)] a b show ?thesis
    unfolding answered_def by (intro exI [of _ "ms @ ms'"] exI [of _ "es @ es'"]) auto
qed

lemma answered_chat_active: "answered c n s s' \<Longrightarrow> chat_active s' = chat_active s"
  unfolding answered_def by (auto dest: grew_chat_active)

lemma exec_getToolSchema_answered:
  "chat_active s \<Longrightarrow> answered c (Suc 0) s (exec_getToolSchema E ts c s)"
  unfolding exec_getToolSchema_def Let_def
  by (simp split: sum.split option.split add: answered_push answered_reply)

lemma exec_listTools_answered:
  "chat_active s \<Longrightarrow> answered c (Suc 0) s (exec_listTools E ts c s)"
  unfolding exec_listTools_def Let_def
  by (simp split: sum.split option.split add: answered_push)

lemma finish_eval_answered:
  "chat_active s \<Longrightarrow>
   answered c (Suc 0) s (fst (finish_eval E c r (s\<lparr>effects := effects s @ es\<rparr>)))"
  unfolding finish_eval_def Let_def by (simp add: answered_reply_effect)

lemma eval_error_answered:
  "chat_active s \<Longrightarrow>
   answered c (Suc 0) s (fst (eval_error E c b v (s\<lparr>effects := effects s @ es\<rparr>)))"
  unfolding eval_error_def eval_caught_def
  by (simp split: option.split add: finish_eval_answered answered_push_effect)

lemma exec_evalCode_answered:
  "chat_active s \<Longrightarrow> answered c (Suc 0) s (fst (exec_evalCode E c s))"
  unfolding exec_evalCode_def Let_def eval_caught_def
  by (simp split: sum.split safe_outcome.split direct_outcome.split
      add: answered_push answered_push_effect finish_eval_answered eval_error_answered)

lemma exec_remote_answered:
  "chat_active s \<Longrightarrow> answered c (Suc 0) s (fst (exec_remote E ts c s))"
  unfolding exec_remote_def Let_def
  by (simp split: sum.split option.split ajv_result.split list.split prod.split
      add: answered_push answered_push_effect)

lemma exec_call_answered:
  assumes "chat_active s"
  shows "answered c (if name c = ''getToolSchema'' then 2 else 1) s (fst (exec_call E ts c s))"
proof (cases "name c = ''getToolSchema''")
  case True
  have 1: "answered c (Suc 0) s (exec_getToolSchema E ts c s)"
    by (rule exec_getToolSchema_answered [OF assms])
  then have "chat_active (exec_getToolSchema E ts c s)"
    using assms answered_chat_active by blast
  then have "answered c (Suc 0) (exec_getToolSchema E ts c s)
      (fst (exec_remote E ts c (exec_getToolSchema E ts c s)))"
    by (rule exec_remote_answered)
  from answered_trans [OF 1 this] True show ?thesis
    by (simp add: exec_call_def numeral_2_eq_2)
next
  case False
  then show ?thesis
    using exec_listTools_answered [OF assms, of c E ts] exec_evalCode_answered [OF assms, of c E]
      exec_remote_answered [OF assms, of c E ts]
    by (simp add: exec_call_def)
qed

subsection \<open>What execution leaves untouched\<close>



lemma grew_push_any: "\<exists>ms. (ms = [] \<or> ms = [m]) \<and> grew s (pushMessage m s) ms []"
  by (auto simp: grew_def same_session_def pushMessage_def split: option.split)

lemma extends_refl [simp]: "extends cs s s"
  unfolding extends_def by (intro exI [of _ "[]"]) simp



lemma extends_reply: "extends [c] s (pushMessage (tool_reply c v b) s)"
proof -
  from grew_push_any [of "tool_reply c v b" s] obtain ms where
    "ms = [] \<or> ms = [tool_reply c v b]" "grew s (pushMessage (tool_reply c v b) s) ms []"
    by blast
  then show ?thesis unfolding extends_def by (intro exI [of _ ms] exI [of _ "[]"]) auto
qed

lemma extends_push: "extends [c] s (pushMessage (tool_message c t b) s)"
  unfolding tool_message_def by (rule extends_reply)





lemma extends_same_session: "extends cs s s' \<Longrightarrow> same_session s s'"
  unfolding extends_def grew_def by blast

lemma exec_getToolSchema_extends: "extends [c] s (exec_getToolSchema E ts c s)"
  unfolding exec_getToolSchema_def Let_def
  by (simp split: sum.split option.split add: extends_push extends_reply)








lemma exec_loop_flow_fst: "exec_loop E ts cs s = fst (exec_loop_flow E ts cs s)"
  by (induction cs arbitrary: s) (auto split: prod.split flow.split)

lemma exec_loop_flow_append:
  "exec_loop_flow E ts (xs @ ys) s =
     (case exec_loop_flow E ts xs s of
        (s1, Continue) \<Rightarrow> exec_loop_flow E ts ys s1
      | (s1, Break) \<Rightarrow> (s1, Break))"
  by (induction xs arbitrary: s) (auto split: prod.split flow.split)








text \<open>The reached calls are a prefix of the batch, and all of it when no call halts.\<close>

lemma attempted_prefix: "prefix (attempted E ts cs s) cs"
  by (induction cs arbitrary: s) (auto split: prod.split flow.split)

lemma attempted_all:
  "exec_loop_flow E ts cs s = (s', Continue) \<Longrightarrow> attempted E ts cs s = cs"
  by (induction cs arbitrary: s) (auto split: prod.splits flow.splits)



subsection \<open>The sample environment\<close>

lemmas sample_defs = sample_call_def fullTools_def sample_state_def sample_server_def
  virtualTools_def getToolSchema_def_tool_def evalCode_def_tool_def listTools_def_tool_def
  sample_tool_def sample_env_def sample_parse_def mini_ajv_def mini_type_ok_def
  sample_message_def


lemma sample_x_call:
  \<open>exec_loop_flow sample_env (fullTools (mcpServers sample_state))
     [sample_call ''call_1'' ''x'' ''{"a":1}''] sample_state =
   (sample_state\<lparr>messages := [tool_message (sample_call ''call_1'' ''x'' ''{"a":1}'') ''ok'' False],
      effects := [CallTool ''https://mcp.example/mcp'' ''x'' (JObj [(''a'', JNum 1)])]\<rparr>, Continue)\<close>
  by (simp add: exec_call_def exec_remote_def find_server_def pushMessage_def sample_defs)


section \<open>The schema validator\<close>

text \<open>The one exemption, and what an unparseable \<^verbatim>\<open>listTools\<close> call meets.\<close>

lemma getToolSchema_exempt:
  "name c = ''getToolSchema'' \<Longrightarrow> validateToolCall E c ts = Valid"
  by (simp add: validateToolCall_def)

lemma listTools_unparseable_invalid:
  assumes "name c = ''listTools''" and "JSON_parse E (arguments c) = Inl msg"
  shows "validateToolCall E c (fullTools servers) =
     Invalid (''Invalid JSON arguments: '' @ msg) (parameters listTools_def_tool)"
  using assms
  by (simp add: validateToolCall_def fullTools_def virtualTools_def getToolSchema_def_tool_def
      evalCode_def_tool_def listTools_def_tool_def)

text \<open>
  C3.  The validator exempts \<^verbatim>\<open>getToolSchema\<close> only.  A \<^verbatim>\<open>listTools\<close> call with
  empty argument text, which the executor would run as \<^verbatim>\<open>listTools({})\<close>, is
  validated like any other tool and comes back Invalid with the parser's message and
  the schema of \<^verbatim>\<open>listTools\<close>.
\<close>

theorem listTools_not_exempt:
  "validateToolCall sample_env (sample_call ''call_1'' ''listTools'' [])
     (fullTools (mcpServers sample_state)) =
   Invalid ''Invalid JSON arguments: Unexpected end of JSON input'' (parameters listTools_def_tool)"
  by (simp add: validateToolCall_def sample_defs)

section \<open>The sequencer\<close>









section \<open>The deduplication\<close>

lemma validateToolCall_cong:
  assumes "name c = name d" and "arguments c = arguments d"
  shows "validateToolCall E c ts = validateToolCall E d ts"
  unfolding validateToolCall_def assms by (rule refl)

text \<open>
  What the loop does in terms of its keys: the result is a subsequence of the input, no
  two of its calls agree on both name and argument text, every input call has a kept
  call with its key, and the head of the list is always kept while every later call with
  its key is dropped.
\<close>

lemma dedup_by_key:
  "subseq (deduplicate cs) cs \<and>
   distinct (map (\<lambda>c. (name c, arguments c)) (deduplicate cs)) \<and>
   (\<forall>c \<in> set cs. \<exists>d \<in> set (deduplicate cs). dedup_key d = dedup_key c) \<and>
   deduplicate (c # cs) = c # deduplicate (filter (\<lambda>d. dedup_key d \<noteq> dedup_key c) cs)"
proof (intro conjI)
  show "subseq (deduplicate cs) cs"
    by (simp add: deduplicate_def dedup_loop_subseq)
  show "distinct (map (\<lambda>c. (name c, arguments c)) (deduplicate cs))"
    by (simp add: deduplicate_def dedup_loop_distinct distinct_pairs)
  show "\<forall>c \<in> set cs. \<exists>d \<in> set (deduplicate cs). dedup_key d = dedup_key c"
  proof
    fix c assume "c \<in> set cs"
    then have "dedup_key c \<in> set (map dedup_key (dedup_loop {} cs))"
      unfolding dedup_loop_keys by simp
    then show "\<exists>d \<in> set (deduplicate cs). dedup_key d = dedup_key c"
      by (auto simp: deduplicate_def)
  qed
  show "deduplicate (c # cs) = c # deduplicate (filter (\<lambda>d. dedup_key d \<noteq> dedup_key c) cs)"
    by (rule deduplicate_Cons)
qed

text \<open>
  For calls whose names have no colon the key stands for the pair: the loop keeps the
  head and drops the later calls that agree with it on name and argument text.
\<close>

lemma dedup_key_inject:
  assumes "CHR '':'' \<notin> set (name c)" and "CHR '':'' \<notin> set (name d)"
    and "dedup_key c = dedup_key d"
  shows "name c = name d \<and> arguments c = arguments d"
proof -
  have tw: "takeWhile (\<lambda>x. x \<noteq> CHR '':'') (n @ ''::'' @ a) = n" if "CHR '':'' \<notin> set n" for n a
    using that by (induction n) auto
  from assms(3) have "takeWhile (\<lambda>x. x \<noteq> CHR '':'') (name c @ ''::'' @ arguments c) =
      takeWhile (\<lambda>x. x \<noteq> CHR '':'') (name d @ ''::'' @ arguments d)"
    by (simp add: dedup_key_def)
  then have n: "name c = name d" using tw [OF assms(1)] tw [OF assms(2)] by simp
  with assms(3) show ?thesis by (simp add: dedup_key_def)
qed

lemma dedup_by_pair:
  assumes "\<forall>d \<in> set (c # cs). CHR '':'' \<notin> set (name d)"
  shows "deduplicate (c # cs) =
     c # deduplicate (filter (\<lambda>d. (name d, arguments d) \<noteq> (name c, arguments c)) cs)"
proof -
  have "filter (\<lambda>d. dedup_key d \<noteq> dedup_key c) cs =
      filter (\<lambda>d. (name d, arguments d) \<noteq> (name c, arguments c)) cs"
  proof (rule filter_cong [OF refl])
    fix d assume "d \<in> set cs"
    with assms have "CHR '':'' \<notin> set (name d)" "CHR '':'' \<notin> set (name c)" by simp_all
    from dedup_key_inject [OF this] show
      "(dedup_key d \<noteq> dedup_key c) = ((name d, arguments d) \<noteq> (name c, arguments c))"
      by (auto simp: dedup_key_def)
  qed
  then show ?thesis by (simp add: deduplicate_Cons)
qed

text \<open>
  A turn of two calls with the same name (other than \<^verbatim>\<open>getToolSchema\<close>) and the same
  argument text, valid and needing no approval, shows one call in the assistant message
  and appends exactly one Tool message, which answers the first of the two.
\<close>

lemma identical_calls_once:
  assumes "name c1 = name c2" and "arguments c1 = arguments c2"
    and "name c1 \<noteq> ''getToolSchema''"
    and "validateToolCall E c1 (fullTools (mcpServers s)) = Valid"
    and "needsApproval s [c1] = []" and "chat_active s"
  shows "answered c1 1 (s\<lparr>messages := messages s @ [msg\<lparr>tool_calls := [c1]\<rparr>]\<rparr>)
        (handleWorkerResponse E (msg\<lparr>tool_calls := [c1, c2]\<rparr>) s)"
proof -
  let ?s1 = "s\<lparr>messages := messages s @ [msg\<lparr>tool_calls := [c1]\<rparr>]\<rparr>"
  have v2: "validateToolCall E c2 (fullTools (mcpServers s)) = Valid"
    using validateToolCall_cong [OF assms(1,2)] assms(4) by simp
  have seq: "sequenceCalls E (fullTools (mcpServers s)) [c1, c2] = ([c1, c2], None)"
    using assms(4) v2 by (simp add: sequenceCalls_def)
  have dd: "deduplicate [c1, c2] = [c1]"
    using assms(1,2) by (simp add: deduplicate_def dedup_key_def)
  have act: "chat_active ?s1" using assms(6) by simp
  have hw: "handleWorkerResponse E (msg\<lparr>tool_calls := [c1, c2]\<rparr>) s = executeTools E [c1] ?s1"
    using assms(5) by (simp add: handleWorkerResponse_def runExecution_def report_error_def seq dd)
  have one: "answered c1 (Suc 0) ?s1 (fst (exec_call E (fullTools (mcpServers ?s1)) c1 ?s1))"
    using exec_call_answered [OF act, of c1 E "fullTools (mcpServers ?s1)"] assms(3) by simp
  have "answered c1 0 s' (postChatToWorker s')" for s'
    unfolding answered_def using grew_post [of s']
    by (intro exI [of _ "[]"] exI [of _ "[PostChat]"]) auto
  from answered_trans [OF one this]
  have "answered c1 (Suc 0) ?s1 (executeTools E [c1] ?s1)"
    by (cases "exec_call E (fullTools (mcpServers s)) c1 ?s1")
      (auto simp: executeTools_def split: flow.splits)
  with hw show ?thesis by simp
qed

text \<open>
  C4.  The key of the loop is the name, two colons and the argument text joined into one
  string, and two calls that differ in name and in argument text can have the same key.
  With a server tool named \<^verbatim>\<open>getToolSchema::x\<close>, take a turn of three valid calls: a
  call of that tool with the arguments \<^verbatim>\<open>{}\<close>, and two identical calls of
  \<^verbatim>\<open>getToolSchema\<close> with the argument text \<^verbatim>\<open>x::{}\<close>.  The loop keeps the first
  call only: the two calls that agree on name and argument text are dropped as
  repetitions of a call that agrees with them on neither, the assistant message shows
  one call, and the only Tool message answers that call.
\<close>

theorem dedup_key_collision:
  \<open>name (sample_call ''call_1'' ''getToolSchema::x'' ''{}'') \<noteq>
     name (sample_call ''call_2'' ''getToolSchema'' ''x::{}'') \<and>
   arguments (sample_call ''call_1'' ''getToolSchema::x'' ''{}'') \<noteq>
     arguments (sample_call ''call_2'' ''getToolSchema'' ''x::{}'') \<and>
   map (\<lambda>c. validateToolCall sample_env c (fullTools (mcpServers colon_state)))
     [sample_call ''call_1'' ''getToolSchema::x'' ''{}'',
      sample_call ''call_2'' ''getToolSchema'' ''x::{}'',
      sample_call ''call_3'' ''getToolSchema'' ''x::{}''] = [Valid, Valid, Valid] \<and>
   deduplicate
     [sample_call ''call_1'' ''getToolSchema::x'' ''{}'',
      sample_call ''call_2'' ''getToolSchema'' ''x::{}'',
      sample_call ''call_3'' ''getToolSchema'' ''x::{}''] =
     [sample_call ''call_1'' ''getToolSchema::x'' ''{}''] \<and>
   handleWorkerResponse sample_env
     (sample_message
        [sample_call ''call_1'' ''getToolSchema::x'' ''{}'',
         sample_call ''call_2'' ''getToolSchema'' ''x::{}'',
         sample_call ''call_3'' ''getToolSchema'' ''x::{}''])
     colon_state =
   colon_state\<lparr>messages :=
       [sample_message [sample_call ''call_1'' ''getToolSchema::x'' ''{}''],
        tool_message (sample_call ''call_1'' ''getToolSchema::x'' ''{}'') ''ok'' False],
     effects := [CallTool ''https://mcp.example/mcp'' ''getToolSchema::x'' (JObj []), PostChat]\<rparr>\<close>
  by code_simp

section \<open>The permission gate\<close>









section \<open>The execution pipeline\<close>

text \<open>
  Without a server that exposes a tool of that name, every \<^verbatim>\<open>getToolSchema\<close> call ends
  the batch after a second message.
\<close>

lemma getToolSchema_always_halts:
  assumes "name c = ''getToolSchema''" and "find_server (mcpServers s) ''getToolSchema'' = None"
  shows "executeTools E (c # rest) s =
     postChatToWorker
       (pushMessage (tool_message c ''Error: Tool not found on any connected server.'' True)
          (exec_getToolSchema E (fullTools (mcpServers s)) c s))"
proof -
  have "same_session s (exec_getToolSchema E (fullTools (mcpServers s)) c s)"
    using exec_getToolSchema_extends extends_same_session by blast
  then have "mcpServers (exec_getToolSchema E (fullTools (mcpServers s)) c s) = mcpServers s"
    by (simp add: same_session_def)
  with assms show ?thesis
    by (simp add: executeTools_def exec_call_def exec_remote_def)
qed

text \<open>
  C1.  A batch of a \<^verbatim>\<open>getToolSchema\<close> call for the existing tool \<^verbatim>\<open>evalCode\<close>
  followed by a \<^verbatim>\<open>listTools\<close> call, with no server exposing a tool named
  \<^verbatim>\<open>getToolSchema\<close>: the first call gets two Tool messages, the schema and then
  an error-flagged "not found on any connected server", the loop stops there, and the
  second call is never run.
\<close>

theorem getToolSchema_falls_through:
  \<open>executeTools sample_env
     [sample_call ''call_1'' ''getToolSchema'' ''{"name":"evalCode"}'',
      sample_call ''call_2'' ''listTools'' ''{}'']
     sample_state =
   sample_state\<lparr>messages :=
     [tool_message (sample_call ''call_1'' ''getToolSchema'' ''{"name":"evalCode"}'')
        (stringify2 [] (parameters evalCode_def_tool)) False,
      tool_message (sample_call ''call_1'' ''getToolSchema'' ''{"name":"evalCode"}'')
        ''Error: Tool not found on any connected server.'' True],
     effects := [PostChat]\<rparr>\<close>
  by (simp add: executeTools_def exec_call_def exec_getToolSchema_def exec_remote_def find_server_def
      pushMessage_def postChatToWorker_def js_or_def nullish_def stringify2_content_def
      tool_message_def sample_defs)

lemma finish_eval_error:
  "chat_active s \<Longrightarrow>
   finish_eval E c (JStr (''Eval Error: '' @ reason)) s =
     (s\<lparr>messages := messages s @ [tool_message c (''Eval Error: '' @ reason) True]\<rparr>, Break)"
  by (simp add: finish_eval_def pushMessage_active tool_message_def)

text \<open>
  The failing runs that the code does report in the normalized form: an error result of
  the sandbox, a rejection by the watchdog or by an exception of the worker, and, without
  the sandbox, a thrown value other than \<^verbatim>\<open>null\<close> and \<^verbatim>\<open>undefined\<close>; \<open>reason\<close> is
  the text of the error or of the message.  The call gets one flagged Tool message and
  the batch ends there, whatever calls follow.
\<close>

lemma evalCode_reported_failure:
  assumes "exec_loop_flow E (fullTools (mcpServers s)) pre s = (s1, Continue)"
    and "name c = ''evalCode''"
    and "JSON_parse E (arguments c) = Inr args" and "\<not> nullish args"
    and "chat_active s1"
    and "(useSafeEval s1 \<and>
           (evalSafe E (effects s1) (get_prop args ''code'') = SafeRejected reason \<or>
            (\<exists>e. evalSafe E (effects s1) (get_prop args ''code'') = SafeFailure e \<and>
                 js_to_string E e = Some reason))) \<or>
         (\<not> useSafeEval s1 \<and>
           (\<exists>v. runFunction E (effects s1) (get_prop args ''code'') = Threw v \<and> \<not> nullish v \<and>
                js_to_string E (get_prop v ''message'') = Some reason))"
  shows "executeTools E (pre @ c # post) s =
     postChatToWorker
       (s1\<lparr>messages := messages s1 @ [tool_message c (''Eval Error: '' @ reason) True],
          effects := effects s1 @
            [if useSafeEval s1 then EvalSafe (get_prop args ''code'')
             else EvalDirect (get_prop args ''code'')]\<rparr>)"
proof -
  let ?code = "get_prop args ''code''"
  have act: "chat_active (s1\<lparr>effects := effects s1 @ es\<rparr>)" for es
    using assms(5) by simp
  have "exec_evalCode E c s1 =
     (s1\<lparr>messages := messages s1 @ [tool_message c (''Eval Error: '' @ reason) True],
        effects := effects s1 @
          [if useSafeEval s1 then EvalSafe ?code else EvalDirect ?code]\<rparr>, Break)"
    using assms(3,4,6) finish_eval_error [OF act, of E c reason]
    by (auto simp: exec_evalCode_def eval_error_def Let_def)
  then have "exec_loop_flow E (fullTools (mcpServers s)) (c # post) s1 =
     (s1\<lparr>messages := messages s1 @ [tool_message c (''Eval Error: '' @ reason) True],
        effects := effects s1 @
          [if useSafeEval s1 then EvalSafe ?code else EvalDirect ?code]\<rparr>, Break)"
    using assms(2) by (simp add: exec_call_def)
  with assms(1) show ?thesis
    by (simp add: executeTools_def exec_loop_flow_fst exec_loop_flow_append)
qed

text \<open>
  C9.  Without the sandbox, the script \<^verbatim>\<open>throw null\<close> fails, and the inner handler
  fails in turn when it reads the \<^verbatim>\<open>message\<close> of the thrown value, so that the outer
  handler reports the call.  In a batch of this \<^verbatim>\<open>evalCode\<close> call and a
  \<^verbatim>\<open>listTools\<close> call, the Tool message of the first call is flagged as an error and
  the second call is not attempted, but the content reads
  \<^verbatim>\<open>Error: Cannot read properties of null (reading 'message')\<close>, which is not of the
  form \<^verbatim>\<open>Eval Error: \<close> followed by a reason.
\<close>

theorem direct_throw_null_unnormalized:
  \<open>executeTools sample_env
     [sample_call ''call_1'' ''evalCode'' ''{"code":"throw null"}'',
      sample_call ''call_2'' ''listTools'' ''{}'']
     (sample_state\<lparr>useSafeEval := False\<rparr>) =
   sample_state\<lparr>useSafeEval := False,
     messages :=
       [tool_message (sample_call ''call_1'' ''evalCode'' ''{"code":"throw null"}'')
          (''Error: Cannot read properties of null (reading '' @ quoted ''message'' @ '')'') True],
     effects := [EvalDirect (JStr ''throw null''), PostChat]\<rparr> \<and>
   startsWith (''Error: Cannot read properties of null (reading '' @ quoted ''message'' @ '')'')
     ''Eval Error:'' = False\<close>
  by code_simp

lemma split_W_aux_no_word:
  "\<forall>ch \<in> set q. \<not> is_word ch \<Longrightarrow> filter (\<lambda>t. t \<noteq> []) (split_W_aux b [] q) = []"
  by (induction q arbitrary: b) auto

text \<open>
  C10, as the code has it.  When the lower-cased query has no word character (ASCII
  letter, digit or underscore) and \<^verbatim>\<open>use_regex\<close> is absent or falsy, a \<^verbatim>\<open>listTools\<close>
  call reports every active tool in registry order, exactly as a call without a query
  does.
\<close>

theorem listTools_no_terms:
  assumes "\<forall>ch \<in> set (toLowerCase q). \<not> is_word ch" and "\<not> truthy useRegex"
  shows "listTools_results E activeTools (JStr q) useRegex = Inr activeTools \<and>
         listTools_results E activeTools JUndef useRegex = Inr activeTools"
  using assms split_W_aux_no_word [of "toLowerCase q" False]
  by (simp add: listTools_results_def split_W_def)

theorem listTools_no_terms_witness:
  "filter is_word (toLowerCase ''?!'') = [] \<and> \<not> truthy JUndef \<and>
   listTools_results sample_env (fullTools (mcpServers sample_state)) (JStr ''?!'') JUndef =
     Inr (fullTools (mcpServers sample_state))"
proof -
  have h: "\<forall>ch \<in> set (toLowerCase ''?!''). \<not> is_word ch"
    by (simp add: toLowerCase_def lower_char_def is_word_def code_of_def)
  from listTools_no_terms [OF h, of JUndef sample_env "fullTools (mcpServers sample_state)"] h
  show ?thesis by (simp add: filter_empty_conv)
qed

text \<open>
  C10 as stated fails: the query \<^verbatim>\<open>_\<close> has no letter and no digit, yet it is one search
  term, and since no tool of the sample registry has an underscore in its name or
  description the listing is empty, while a call with no query lists all four tools.
\<close>

theorem underscore_query_counterexample:
  "filter is_alnum ''_'' = [] \<and>
   listTools_results sample_env (fullTools (mcpServers sample_state)) (JStr ''_'') JUndef = Inr [] \<and>
   listTools_results sample_env (fullTools (mcpServers sample_state)) JUndef JUndef =
     Inr (fullTools (mcpServers sample_state)) \<and>
   fullTools (mcpServers sample_state) \<noteq> []"
  by code_simp

section \<open>The schema-example synthesizer, by kind of schema\<close>

text \<open>
  The literal keys are tested for truthiness: a falsy literal is passed over.  A
  required property named \<^verbatim>\<open>__proto__\<close> is synthesized but not stored.
\<close>

lemma falsy_default_skipped:
  "generateExample sample_env (JObj [(''type'', JStr ''boolean''), (''default'', JBool False)]) =
     Inr (JBool True)"
  by code_simp

lemma proto_key_not_stored:
  "generateExample sample_env
     (JObj [(''type'', JStr ''object''), (''required'', JArr [JStr ''__proto__'']),
        (''properties'', JObj [(''__proto__'', JObj [(''type'', JStr ''string'')])])]) =
     Inr (JObj [])"
  by code_simp

lemma collect_required:
  "list_all (\<lambda>kv. fst kv \<noteq> ''__proto__'') (filter (\<lambda>kv. JStr (fst kv) \<in> set rs) ps) \<Longrightarrow>
   on_value concat (collect (map (\<lambda>kv. case required_includes (JArr rs) (fst kv) of
       None \<Rightarrow> Inl m | Some False \<Rightarrow> Inr []
     | Some True \<Rightarrow> on_value (assign (fst kv)) (g kv)) ps)) =
   collect (map (\<lambda>kv. on_value (Pair (fst kv)) (g kv)) (filter (\<lambda>kv. JStr (fst kv) \<in> set rs) ps))"
proof (induction ps)
  case Nil
  show ?case by simp
next
  case (Cons kv ps)
  let ?F = "\<lambda>kv. case required_includes (JArr rs) (fst kv) of
       None \<Rightarrow> Inl m | Some False \<Rightarrow> Inr []
     | Some True \<Rightarrow> on_value (assign (fst kv)) (g kv)"
  let ?G = "\<lambda>kv. on_value (Pair (fst kv)) (g kv)"
  have IH: "on_value concat (collect (map ?F ps)) =
      collect (map ?G (filter (\<lambda>kv. JStr (fst kv) \<in> set rs) ps))"
    using Cons by (simp split: if_splits)
  show ?case
  proof (cases "JStr (fst kv) \<in> set rs")
    case False
    then show ?thesis by (cases "collect (map ?F ps)") (simp_all add: IH [symmetric])
  next
    case True
    with Cons.prems have k: "fst kv \<noteq> ''__proto__''" by simp
    show ?thesis
    proof (cases "g kv")
      case (Inl e)
      with True show ?thesis by simp
    next
      case (Inr v)
      with True k show ?thesis
        by (cases "collect (map ?F ps)") (simp_all add: IH [symmetric] assign_def)
    qed
  qed
qed

lemma collect_keys:
  "collect (map (\<lambda>kv. on_value (Pair (fst kv)) (g kv)) xs) = Inr out \<Longrightarrow>
   map fst out = map fst xs \<and> list_all2 (\<lambda>kv v. g kv = Inr v) xs (map snd out)"
proof (induction xs arbitrary: out)
  case Nil
  then show ?case by simp
next
  case (Cons x xs)
  then show ?case
    by (cases "g x"; cases "collect (map (\<lambda>kv. on_value (Pair (fst kv)) (g kv)) xs)") auto
qed

lemma has_type_ty:
  "has_type sc t \<Longrightarrow>
   (case get_prop sc ''type'' of JArr ts \<Rightarrow> js_index0 (JArr ts) | u \<Rightarrow> u) = JStr t"
  by (auto simp: has_type_def split: json.splits list.splits)

lemma generateExample_plain:
  assumes "no_literal sc" and "has_type sc t"
  shows "generateExample E sc =
     (if t = ''object'' then
        (let requiredFields = js_or (get_prop sc ''required'') (JArr []) in
           if truthy (get_prop sc ''properties'') then
             on_value (\<lambda>kvs. JObj (concat kvs)) (collect (map (\<lambda>kv.
                 case required_includes requiredFields (fst kv) of
                   None \<Rightarrow> Inl includes_not_function
                 | Some False \<Rightarrow> Inr []
                 | Some True \<Rightarrow> on_value (assign (fst kv)) (generateExample E (snd kv)))
               (entries (get_prop sc ''properties''))))
           else Inr (JObj []))
      else if t = ''array'' then
          (if truthy (get_prop sc ''items'')
           then on_value (\<lambda>e. JArr [e]) (generateExample E (get_prop sc ''items''))
           else Inr (JArr []))
      else if t = ''string'' then Inr (JStr ''example_string'')
      else if t = ''number'' \<or> t = ''integer'' then Inr (JNum 123)
      else if t = ''boolean'' then Inr (JBool True)
      else if t = ''null'' then Inr JNull
      else Inr (JObj []))"
proof -
  from assms(2) have "truthy sc" by (cases sc) (auto simp: has_type_def)
  have ty: "(case get_prop sc ''type'' of JArr ts \<Rightarrow> js_index0 (JArr ts) | u \<Rightarrow> u) = JStr t"
    by (rule has_type_ty [OF assms(2)])
  from assms(1) have lit: "\<not> truthy (get_prop sc ''example'')" "\<not> truthy (get_prop sc ''default'')"
    "\<not> truthy (get_prop sc ''const'')"
    "(if truthy (get_prop sc ''enum'') then js_gt_zero E (js_length (get_prop sc ''enum''))
      else Some False) = Some False"
    by (auto simp: no_literal_def)
  show ?thesis
    apply (subst generateExample.simps)
    apply (simp only: \<open>truthy sc\<close> lit ty not_True_eq_False if_False Let_def option.case bool.case)
    apply simp
    done
qed

lemma generateExample_literal:
  "truthy (get_prop sc k) \<Longrightarrow> truthy sc"
  by (cases sc) auto

text \<open>
  C6, as the code has it.  A truthy \<^verbatim>\<open>example\<close> is returned as it is; without an
  \<^verbatim>\<open>example\<close>, a truthy \<^verbatim>\<open>default\<close>; without both, a truthy \<^verbatim>\<open>const\<close>; without
  the three, the first member of a non-empty \<^verbatim>\<open>enum\<close>.  For a schema with none of
  these keys: an \<^verbatim>\<open>object\<close> schema whose \<^verbatim>\<open>required\<close> is a list or missing, and
  none of whose required declared properties is named \<^verbatim>\<open>__proto__\<close>, yields an object
  whose keys are exactly the properties that are both declared under \<^verbatim>\<open>properties\<close>
  and listed in \<^verbatim>\<open>required\<close>, in declaration order, each with the example
  synthesized from its own schema (the empty object when the schema declares no
  properties); an \<^verbatim>\<open>array\<close> schema yields the one-element array of the example of its
  \<^verbatim>\<open>items\<close>, and the empty array when it has no \<^verbatim>\<open>items\<close>; \<^verbatim>\<open>string\<close>,
  \<^verbatim>\<open>number\<close> or \<^verbatim>\<open>integer\<close>, \<^verbatim>\<open>boolean\<close> and \<^verbatim>\<open>null\<close> yield
  \<^verbatim>\<open>"example_string"\<close>, \<^verbatim>\<open>123\<close>, \<^verbatim>\<open>true\<close> and \<^verbatim>\<open>null\<close>.
\<close>

theorem generateExample_by_schema:
  "(truthy (get_prop sc ''example'') \<longrightarrow> generateExample E sc = Inr (get_prop sc ''example'')) \<and>
   (get_prop sc ''example'' = JUndef \<and> truthy (get_prop sc ''default'') \<longrightarrow>
      generateExample E sc = Inr (get_prop sc ''default'')) \<and>
   (get_prop sc ''example'' = JUndef \<and> get_prop sc ''default'' = JUndef \<and>
    truthy (get_prop sc ''const'') \<longrightarrow>
      generateExample E sc = Inr (get_prop sc ''const'')) \<and>
   (get_prop sc ''example'' = JUndef \<and> get_prop sc ''default'' = JUndef \<and>
    get_prop sc ''const'' = JUndef \<and> get_prop sc ''enum'' = JArr (v # vs) \<longrightarrow>
      generateExample E sc = Inr v) \<and>
   (no_literal sc \<and> has_type sc ''object'' \<and>
    (\<not> truthy (get_prop sc ''required'') \<or> get_prop sc ''required'' = JArr (required_keys sc)) \<and>
    list_all (\<lambda>kv. fst kv \<noteq> ''__proto__'') (required_declared sc) \<longrightarrow>
      generateExample E sc =
        on_value JObj (collect (map (\<lambda>kv. on_value (Pair (fst kv)) (generateExample E (snd kv)))
          (required_declared sc))) \<and>
      (\<forall>ex. generateExample E sc = Inr ex \<longrightarrow>
         (\<exists>out. ex = JObj out \<and> map fst out = map fst (required_declared sc) \<and>
            list_all2 (\<lambda>kv e. generateExample E (snd kv) = Inr e)
              (required_declared sc) (map snd out)))) \<and>
   (no_literal sc \<and> has_type sc ''array'' \<and> truthy (get_prop sc ''items'') \<longrightarrow>
      generateExample E sc = on_value (\<lambda>e. JArr [e]) (generateExample E (get_prop sc ''items''))) \<and>
   (no_literal sc \<and> has_type sc ''array'' \<and> \<not> truthy (get_prop sc ''items'') \<longrightarrow>
      generateExample E sc = Inr (JArr [])) \<and>
   (no_literal sc \<and> has_type sc ''string'' \<longrightarrow> generateExample E sc = Inr (JStr ''example_string'')) \<and>
   (no_literal sc \<and> (has_type sc ''number'' \<or> has_type sc ''integer'') \<longrightarrow>
      generateExample E sc = Inr (JNum 123)) \<and>
   (no_literal sc \<and> has_type sc ''boolean'' \<longrightarrow> generateExample E sc = Inr (JBool True)) \<and>
   (no_literal sc \<and> has_type sc ''null'' \<longrightarrow> generateExample E sc = Inr JNull)"
proof (intro conjI impI)
  assume "truthy (get_prop sc ''example'')"
  then show "generateExample E sc = Inr (get_prop sc ''example'')"
    using generateExample_literal [of sc "''example''"]
    by (subst generateExample.simps) simp
next
  assume "get_prop sc ''example'' = JUndef \<and> truthy (get_prop sc ''default'')"
  then show "generateExample E sc = Inr (get_prop sc ''default'')"
    using generateExample_literal [of sc "''default''"]
    by (subst generateExample.simps) simp
next
  assume "get_prop sc ''example'' = JUndef \<and> get_prop sc ''default'' = JUndef \<and>
    truthy (get_prop sc ''const'')"
  then show "generateExample E sc = Inr (get_prop sc ''const'')"
    using generateExample_literal [of sc "''const''"]
    by (subst generateExample.simps) simp
next
  assume h: "get_prop sc ''example'' = JUndef \<and> get_prop sc ''default'' = JUndef \<and>
    get_prop sc ''const'' = JUndef \<and> get_prop sc ''enum'' = JArr (v # vs)"
  then have "truthy (get_prop sc ''enum'')" by simp
  then have "truthy sc" by (rule generateExample_literal)
  with h show "generateExample E sc = Inr v"
    by (subst generateExample.simps) simp
next
  assume h: "no_literal sc \<and> has_type sc ''object'' \<and>
    (\<not> truthy (get_prop sc ''required'') \<or> get_prop sc ''required'' = JArr (required_keys sc)) \<and>
    list_all (\<lambda>kv. fst kv \<noteq> ''__proto__'') (required_declared sc)"
  let ?G = "\<lambda>kv. on_value (Pair (fst kv)) (generateExample E (snd kv))"
  from h consider (absent) "\<not> truthy (get_prop sc ''required'')"
    | (listed) rs where "get_prop sc ''required'' = JArr rs" by blast
  then have rq: "js_or (get_prop sc ''required'') (JArr []) = JArr (required_keys sc)"
  proof cases
    case absent
    then show ?thesis by (cases "get_prop sc ''required''") (simp_all add: js_or_def required_keys_def)
  next
    case listed
    then show ?thesis by (simp add: js_or_def required_keys_def)
  qed
  show eq: "generateExample E sc = on_value JObj (collect (map ?G (required_declared sc)))"
  proof (cases "truthy (get_prop sc ''properties'')")
    case False
    with h show ?thesis
      using generateExample_plain [of sc "''object''" E]
      by (simp add: Let_def required_declared_def declared_def)
  next
    case True
    let ?ps = "entries (get_prop sc ''properties'')"
    from True have rd: "required_declared sc = filter (\<lambda>kv. JStr (fst kv) \<in> set (required_keys sc)) ?ps"
      by (simp add: required_declared_def declared_def)
    from h True have "generateExample E sc =
        on_value (\<lambda>kvs. JObj (concat kvs)) (collect (map (\<lambda>kv.
            case required_includes (JArr (required_keys sc)) (fst kv) of
              None \<Rightarrow> Inl includes_not_function
            | Some False \<Rightarrow> Inr []
            | Some True \<Rightarrow> on_value (assign (fst kv)) (generateExample E (snd kv))) ?ps))"
      using generateExample_plain [of sc "''object''" E] by (simp add: Let_def rq)
    also have "\<dots> = on_value JObj (on_value concat (collect (map (\<lambda>kv.
            case required_includes (JArr (required_keys sc)) (fst kv) of
              None \<Rightarrow> Inl includes_not_function
            | Some False \<Rightarrow> Inr []
            | Some True \<Rightarrow> on_value (assign (fst kv)) (generateExample E (snd kv))) ?ps)))"
      by (cases "collect (map (\<lambda>kv.
            case required_includes (JArr (required_keys sc)) (fst kv) of
              None \<Rightarrow> Inl includes_not_function
            | Some False \<Rightarrow> Inr []
            | Some True \<Rightarrow> on_value (assign (fst kv)) (generateExample E (snd kv))) ?ps)") simp_all
    also have "\<dots> = on_value JObj (collect (map ?G (required_declared sc)))"
      using h collect_required [of "required_keys sc" ?ps includes_not_function "\<lambda>kv. generateExample E (snd kv)"]
      by (simp add: rd)
    finally show ?thesis .
  qed
  show "\<forall>ex. generateExample E sc = Inr ex \<longrightarrow>
         (\<exists>out. ex = JObj out \<and> map fst out = map fst (required_declared sc) \<and>
            list_all2 (\<lambda>kv e. generateExample E (snd kv) = Inr e)
              (required_declared sc) (map snd out))"
  proof (intro allI impI)
    fix ex assume "generateExample E sc = Inr ex"
    with eq have "on_value JObj (collect (map ?G (required_declared sc))) = Inr ex" by simp
    then obtain out where out: "ex = JObj out" "collect (map ?G (required_declared sc)) = Inr out"
      by (cases "collect (map ?G (required_declared sc))") auto
    from collect_keys [OF out(2)] out(1)
    show "\<exists>out. ex = JObj out \<and> map fst out = map fst (required_declared sc) \<and>
            list_all2 (\<lambda>kv e. generateExample E (snd kv) = Inr e)
              (required_declared sc) (map snd out)"
      by blast
  qed
next
  assume "no_literal sc \<and> has_type sc ''array'' \<and> truthy (get_prop sc ''items'')"
  then show "generateExample E sc = on_value (\<lambda>e. JArr [e]) (generateExample E (get_prop sc ''items''))"
    using generateExample_plain [of sc "''array''" E] by simp
next
  assume "no_literal sc \<and> has_type sc ''array'' \<and> \<not> truthy (get_prop sc ''items'')"
  then show "generateExample E sc = Inr (JArr [])"
    using generateExample_plain [of sc "''array''" E] by simp
next
  assume "no_literal sc \<and> has_type sc ''string''"
  then show "generateExample E sc = Inr (JStr ''example_string'')"
    using generateExample_plain [of sc "''string''" E] by simp
next
  assume "no_literal sc \<and> (has_type sc ''number'' \<or> has_type sc ''integer'')"
  then show "generateExample E sc = Inr (JNum 123)"
    using generateExample_plain [of sc "''number''" E] generateExample_plain [of sc "''integer''" E]
    by auto
next
  assume "no_literal sc \<and> has_type sc ''boolean''"
  then show "generateExample E sc = Inr (JBool True)"
    using generateExample_plain [of sc "''boolean''" E] by simp
next
  assume "no_literal sc \<and> has_type sc ''null''"
  then show "generateExample E sc = Inr JNull"
    using generateExample_plain [of sc "''null''" E] by simp
qed

theorem generateExample_by_schema_witness:
  "no_literal (JObj [(''type'', JStr ''object''), (''required'', JArr [JStr ''a'']),
      (''properties'', JObj [(''a'', JObj [(''type'', JStr ''string'')]),
                            (''b'', JObj [(''type'', JStr ''number'')])])]) \<and>
   has_type (JObj [(''type'', JStr ''object''), (''required'', JArr [JStr ''a'']),
      (''properties'', JObj [(''a'', JObj [(''type'', JStr ''string'')]),
                            (''b'', JObj [(''type'', JStr ''number'')])])]) ''object'' \<and>
   required_declared (JObj [(''type'', JStr ''object''), (''required'', JArr [JStr ''a'']),
      (''properties'', JObj [(''a'', JObj [(''type'', JStr ''string'')]),
                            (''b'', JObj [(''type'', JStr ''number'')])])]) =
     [(''a'', JObj [(''type'', JStr ''string'')])] \<and>
   generateExample sample_env (JObj [(''type'', JStr ''object''), (''required'', JArr [JStr ''a'']),
      (''properties'', JObj [(''a'', JObj [(''type'', JStr ''string'')]),
                            (''b'', JObj [(''type'', JStr ''number'')])])]) =
     Inr (JObj [(''a'', JStr ''example_string'')]) \<and>
   generateExample sample_env (JObj [(''type'', JStr ''object'')]) = Inr (JObj []) \<and>
   truthy (get_prop (JObj [(''type'', JStr ''array''), (''items'', JObj [(''type'', JStr ''integer'')])]) ''items'') \<and>
   generateExample sample_env (JObj [(''type'', JStr ''array''), (''items'', JObj [(''type'', JStr ''integer'')])]) =
     Inr (JArr [JNum 123]) \<and>
   generateExample sample_env (JObj [(''type'', JStr ''string''), (''enum'', JArr [JStr ''red'', JStr ''green''])]) =
     Inr (JStr ''red'') \<and>
   truthy (get_prop (JObj [(''type'', JStr ''number''), (''default'', JNum 5)]) ''default'') \<and>
   generateExample sample_env (JObj [(''type'', JStr ''number''), (''default'', JNum 5)]) = Inr (JNum 5)"
proof -
  let ?a = "JObj [(''type'', JStr ''string'')]"
  let ?b = "JObj [(''type'', JStr ''number'')]"
  let ?ps = "[(''a'', ?a), (''b'', ?b)]"
  let ?S = "JObj [(''type'', JStr ''object''), (''required'', JArr [JStr ''a'']), (''properties'', JObj ?ps)]"
  let ?O = "JObj [(''type'', JStr ''object'')]"
  let ?i = "JObj [(''type'', JStr ''integer'')]"
  let ?A = "JObj [(''type'', JStr ''array''), (''items'', ?i)]"
  let ?E = "JObj [(''type'', JStr ''string''), (''enum'', JArr [JStr ''red'', JStr ''green''])]"
  let ?D = "JObj [(''type'', JStr ''number''), (''default'', JNum 5)]"
  have "no_literal ?a \<and> has_type ?a ''string''" by (simp add: no_literal_def has_type_def)
  with generateExample_by_schema [of ?a sample_env]
  have a: "generateExample sample_env ?a = Inr (JStr ''example_string'')" by blast
  have "no_literal ?i \<and> (has_type ?i ''number'' \<or> has_type ?i ''integer'')"
    by (simp add: no_literal_def has_type_def)
  with generateExample_by_schema [of ?i sample_env]
  have i: "generateExample sample_env ?i = Inr (JNum 123)" by blast
  have nl: "no_literal ?S" by (simp add: no_literal_def)
  have ht: "has_type ?S ''object''" by (simp add: has_type_def)
  have rk: "required_keys ?S = [JStr ''a'']" by (simp add: required_keys_def)
  have rd: "required_declared ?S = [(''a'', ?a)]"
    by (simp add: required_declared_def declared_def rk)
  have "no_literal ?S \<and> has_type ?S ''object'' \<and>
      (\<not> truthy (get_prop ?S ''required'') \<or> get_prop ?S ''required'' = JArr (required_keys ?S)) \<and>
      list_all (\<lambda>kv. fst kv \<noteq> ''__proto__'') (required_declared ?S)"
    using nl ht by (simp add: rk rd)
  with generateExample_by_schema [of ?S sample_env]
  have "generateExample sample_env ?S =
      on_value JObj (collect (map (\<lambda>kv. on_value (Pair (fst kv)) (generateExample sample_env (snd kv)))
        (required_declared ?S)))" by blast
  then have S: "generateExample sample_env ?S = Inr (JObj [(''a'', JStr ''example_string'')])"
    by (simp add: rd a)
  have "no_literal ?O \<and> has_type ?O ''object'' \<and>
      (\<not> truthy (get_prop ?O ''required'') \<or> get_prop ?O ''required'' = JArr (required_keys ?O)) \<and>
      list_all (\<lambda>kv. fst kv \<noteq> ''__proto__'') (required_declared ?O)"
    by (simp add: no_literal_def has_type_def required_declared_def declared_def)
  with generateExample_by_schema [of ?O sample_env]
  have "generateExample sample_env ?O =
      on_value JObj (collect (map (\<lambda>kv. on_value (Pair (fst kv)) (generateExample sample_env (snd kv)))
        (required_declared ?O)))" by blast
  then have O: "generateExample sample_env ?O = Inr (JObj [])"
    by (simp add: required_declared_def declared_def)
  have ti: "truthy (get_prop ?A ''items'')" by simp
  then have "no_literal ?A \<and> has_type ?A ''array'' \<and> truthy (get_prop ?A ''items'')"
    by (simp add: no_literal_def has_type_def)
  with generateExample_by_schema [of ?A sample_env]
  have "generateExample sample_env ?A =
      on_value (\<lambda>e. JArr [e]) (generateExample sample_env (get_prop ?A ''items''))" by blast
  then have A: "generateExample sample_env ?A = Inr (JArr [JNum 123])" by (simp add: i)
  have "get_prop ?E ''example'' = JUndef \<and> get_prop ?E ''default'' = JUndef \<and>
      get_prop ?E ''const'' = JUndef \<and> get_prop ?E ''enum'' = JArr (JStr ''red'' # [JStr ''green''])"
    by simp
  with generateExample_by_schema [of ?E sample_env "JStr ''red''" "[JStr ''green'']"]
  have E: "generateExample sample_env ?E = Inr (JStr ''red'')" by blast
  have td: "truthy (get_prop ?D ''default'')" by simp
  then have "get_prop ?D ''example'' = JUndef \<and> truthy (get_prop ?D ''default'')" by simp
  with generateExample_by_schema [of ?D sample_env]
  have "generateExample sample_env ?D = Inr (get_prop ?D ''default'')" by blast
  then have D: "generateExample sample_env ?D = Inr (JNum 5)" by simp
  from nl ht rd S O ti A E td D show ?thesis by blast
qed

text \<open>
  C6 as stated fails: a key that \<^verbatim>\<open>required\<close> lists but \<^verbatim>\<open>properties\<close> does not
  declare is not in the example, an array schema without \<^verbatim>\<open>items\<close> yields no
  element, and an object schema whose \<^verbatim>\<open>required\<close> is not a list yields no example at
  all: the synthesizer throws.
\<close>

theorem undeclared_required_counterexample:
  "required_keys (JObj [(''type'', JStr ''object''), (''required'', JArr [JStr ''a'']),
      (''properties'', JObj [(''b'', JObj [(''type'', JStr ''string'')])])]) = [JStr ''a''] \<and>
   generateExample sample_env (JObj [(''type'', JStr ''object''), (''required'', JArr [JStr ''a'']),
      (''properties'', JObj [(''b'', JObj [(''type'', JStr ''string'')])])]) = Inr (JObj []) \<and>
   generateExample sample_env (JObj [(''type'', JStr ''array'')]) = Inr (JArr []) \<and>
   generateExample sample_env (JObj [(''type'', JStr ''object''), (''required'', JBool True),
      (''properties'', JObj [(''a'', JObj [(''type'', JStr ''string'')])])]) =
     Inl ''requiredFields.includes is not a function''"
  by code_simp

section \<open>The call extractor on well-formed pieces\<close>

lemma dq_ne [simp]: "dquote \<noteq> backslash" "dquote \<noteq> CHR ''{''" "dquote \<noteq> CHR ''}''"
  "backslash \<noteq> dquote" "CHR ''{'' \<noteq> dquote" "CHR ''}'' \<noteq> dquote"
  by (simp_all add: dquote_def backslash_def)

















end
